theory Spec2Isabelle
  imports Complex_Main "HOL-Library.Char_ord" "HOL-Library.List_Lexorder"
    "HOL-Library.Product_Lexorder"
begin

section \<open>Python and library primitives used by the sources\<close>

text \<open>
  Exceptions of the Python sources are values: every function that can raise returns
  \<open>error + 'a\<close>, with \<open>Inl\<close> carrying the exception.
\<close>

datatype error = ValueError | KeyError | IndexError | TypeError

type_synonym group = string
type_synonym vector = "real list"
type_synonym matrix = "real list list"

text \<open>
  Python's builtin \<open>min\<close> on a list: \<open>ValueError\<close> on the empty list, otherwise the
  least element. Tuples compare lexicographically and strings by code point, which is the
  order of \<open>real \<times> string\<close> here.
\<close>

definition py_min :: "'a::linorder list \<Rightarrow> error + 'a" where
  "py_min xs = (case xs of [] \<Rightarrow> Inl ValueError | x # ys \<Rightarrow> Inr (fold min ys x))"

text \<open>\<open>list.index(v)\<close>: the first position holding \<open>v\<close>, \<open>ValueError\<close> when absent.\<close>

fun py_index :: "'a list \<Rightarrow> 'a \<Rightarrow> error + nat" where
  "py_index [] v = Inl ValueError"
| "py_index (x # xs) v =
     (if x = v then Inr 0
      else (case py_index xs v of Inl e \<Rightarrow> Inl e | Inr i \<Rightarrow> Inr (Suc i)))"

subsection \<open>Dictionaries\<close>

text \<open>
  A Python \<open>dict\<close> whose key order matters is an association list with unique keys;
  \<open>d[k]\<close> raises \<open>KeyError\<close> on a missing key.
\<close>

definition keys :: "('k \<times> 'v) list \<Rightarrow> 'k list" where
  "keys d = map fst d"

definition lookup :: "('k \<times> 'v) list \<Rightarrow> 'k \<Rightarrow> error + 'v" where
  "lookup d k = (case map_of d k of None \<Rightarrow> Inl KeyError | Some v \<Rightarrow> Inr v)"

section \<open>SingleFitGrouped\<close>

text \<open>
  The attributes of a \<open>SingleFitGrouped\<close> object that its own methods read or write.
  \<open>per_group_statistics\<close> is a dict of dicts: group label to statistic name to value.
  The datasets, \<open>plot_filter_out\<close>, \<open>plotting_index\<close>, the training and testing arrays
  and \<open>testing_target_prediction\<close> are attributes of the parent class \<open>SingleFit\<close>.
\<close>

record logo_entry =
  test_index :: "nat list"

type_synonym index_dict = "(group \<times> logo_entry) list"

text \<open>
  Modelled from the spec: the dataset collaborator of section 6 (\<open>data_parser\<close>), whose
  source is not among these files. A dataset is an ordered sequence of rows with named
  fields, the names of its feature columns and of its target column, and the exclusive
  filters registered on it, in the order added. A field of a row is read as a number
  (feature and target columns) or as a label (grouping and labelling columns). An
  exclusive filter is a (field, operator, value) triplet whose value is a text or a
  number; it removes the matching rows from every later read. The specification fixes
  the equality operator; what the other operators match is the collaborator's, kept as
  the component \<open>other_operators\<close>.
\<close>

datatype filter_value = Text string | Number real

record data_row =
  number_of :: "string \<Rightarrow> real"
  label_of :: "string \<Rightarrow> group"

record dataset =
  data_rows :: "data_row list"
  x_features :: "string list"
  y_feature :: "string option"
  exclusive_filters :: "(string \<times> string \<times> filter_value) list"
  other_operators :: "string \<Rightarrow> data_row \<Rightarrow> string \<Rightarrow> filter_value \<Rightarrow> bool"

record sfg =
  training_dataset :: dataset
  testing_dataset :: dataset
  plot_filter_out :: "string list option"
  plotting_index :: "nat list"
  training_input_data :: matrix
  training_target_data :: "vector option"
  testing_input_data :: matrix
  testing_target_data :: "vector option"
  testing_target_prediction :: vector
  grouping_feature :: string
  mark_outlying_groups :: int
  fit_only_on_matched_groups :: int
  train_group_data :: "group list"
  train_group_indices :: index_dict
  train_groups :: "group list"
  test_group_data :: "group list"
  test_group_indices :: index_dict
  test_groups :: "group list"
  per_group_statistics :: "group \<rightharpoonup> (string \<rightharpoonup> real)"
  outlying_groups :: "group list"

subsection \<open>get_outlying_groups\<close>

definition nogroup :: "real \<times> group" where
  "nogroup = (0, ''nogroup'')"

definition criterion :: "sfg \<Rightarrow> string" where
  "criterion s = (if plot_filter_out s = None then ''rmse'' else ''rmse_plot_filter_out'')"

text \<open>
  The loop over \<open>self.test_groups\<close>. \<open>min(highest_rmses)\<close> is evaluated first in every
  iteration, so it raises on an empty working list before the statistics are looked at.
\<close>

fun mark_loop ::
  "(group \<rightharpoonup> (string \<rightharpoonup> real)) \<Rightarrow> string \<Rightarrow> group list \<Rightarrow> (real \<times> group) list
     \<Rightarrow> error + (real \<times> group) list" where
  "mark_loop stats crit [] highest_rmses = Inr highest_rmses"
| "mark_loop stats crit (g # gs) highest_rmses =
     (case py_min highest_rmses of
        Inl e \<Rightarrow> Inl e
      | Inr min_entry \<Rightarrow>
          (case stats g of
             None \<Rightarrow> Inl KeyError
           | Some gstats \<Rightarrow>
               (case gstats crit of
                  None \<Rightarrow> mark_loop stats crit gs highest_rmses
                | Some g_rmse \<Rightarrow>
                    if g_rmse > fst min_entry then
                      (case py_index highest_rmses min_entry of
                         Inl e \<Rightarrow> Inl e
                       | Inr i \<Rightarrow> mark_loop stats crit gs (highest_rmses[i := (g_rmse, g)]))
                    else mark_loop stats crit gs highest_rmses)))"

text \<open>The local list \<open>highest_rmses\<close> as it stands when it is logged.\<close>

definition highest_rmses :: "sfg \<Rightarrow> error + (real \<times> group) list" where
  "highest_rmses s =
     (let num_mark = min (mark_outlying_groups s) (int (length (test_groups s)))
      in mark_loop (per_group_statistics s) (criterion s) (test_groups s)
           (replicate (nat num_mark) nogroup))"

definition get_outlying_groups :: "sfg \<Rightarrow> error + sfg" where
  "get_outlying_groups s =
     (case highest_rmses s of
        Inl e \<Rightarrow> Inl e
      | Inr hs \<Rightarrow> Inr (s\<lparr>outlying_groups := map snd hs\<rparr>))"

section \<open>ExtrapolateFull.execute\<close>

subsection \<open>numpy and scikit-learn primitives\<close>

text \<open>
  \<open>a[index]\<close> with a list of row numbers: the rows in the order of the list,
  \<open>IndexError\<close> when a number is out of range. The empty list selects no row.
\<close>

definition take_rows :: "'a list \<Rightarrow> nat list \<Rightarrow> error + 'a list" where
  "take_rows a index =
     (if list_all (\<lambda>i. i < length a) index then Inr (map (\<lambda>i. a ! i) index)
      else Inl IndexError)"

text \<open>
  \<open>np.intersect1d\<close> and \<open>np.setdiff1d\<close>: the sorted, duplicate-free common elements,
  respectively the sorted, duplicate-free elements of the first array absent from the
  second.
\<close>

definition intersect1d :: "'a::linorder list \<Rightarrow> 'a list \<Rightarrow> 'a list" where
  "intersect1d ar1 ar2 = sort (remdups (filter (\<lambda>x. x \<in> set ar2) ar1))"

definition setdiff1d :: "'a::linorder list \<Rightarrow> 'a list \<Rightarrow> 'a list" where
  "setdiff1d ar1 ar2 = sort (remdups (filter (\<lambda>x. x \<notin> set ar2) ar1))"

text \<open>
  \<open>sklearn.metrics.mean_squared_error(y_true, y_pred)\<close> on one-dimensional arrays. The
  library validates its arguments before averaging: arrays of different lengths are
  rejected (\<open>check_consistent_length\<close>) and so is an array with no sample
  (\<open>check_array\<close>, which requires at least one), both with \<open>ValueError\<close>. Otherwise the
  result is the mean of the squared differences. Floating-point numbers are modelled as
  reals.
\<close>

definition mean_squared_error :: "vector \<Rightarrow> vector \<Rightarrow> error + real" where
  "mean_squared_error y_true y_pred =
     (if length y_true \<noteq> length y_pred then Inl ValueError
      else if y_true = [] then Inl ValueError
      else Inr (sum_list (map (\<lambda>(t, p). (t - p)\<^sup>2) (zip y_true y_pred))
                  / real (length y_true)))"

subsection \<open>The model capability and the calls made on it\<close>

text \<open>
  The regression model is opaque: \<open>fit\<close> yields the fitted state from the training
  arrays and \<open>predict\<close> reads it. The calls that reach the model and the metric are
  recorded in order.
\<close>

record 's model =
  fit :: "matrix \<Rightarrow> vector \<Rightarrow> 's"
  predict :: "'s \<Rightarrow> matrix \<Rightarrow> vector"

datatype event =
  Fit matrix vector
| Predict matrix
| MeanSquaredError vector vector

text \<open>
  The inputs of \<open>execute\<close> after parsing: the arrays read from \<open>data\<close> and from the
  datasets named by \<open>topredict_data_csv\<close> and \<open>standard_conditions_csv\<close>, the group
  index dictionaries returned by \<open>gttd.get_field_logo_indices\<close> for the fitting and the
  to-predict data, the measured-error column when \<open>measerrfield\<close> is given, and the two
  options \<open>plot_filter_out\<close> and \<open>fit_only_on_matched_groups\<close>.
\<close>

record execute_args =
  data_Xdata :: matrix
  data_ydata :: vector
  fit_indices :: index_dict
  topredict_Xdata :: matrix
  topredict_ydata :: vector
  topredict_indices :: index_dict
  measerr_data :: "vector option"
  std_Xdata :: "matrix option"
  arg_plot_filter_out :: string
  arg_fit_only_on_matched_groups :: int

text \<open>Lines 71 to 75: the groups of both datasets and their intersection.\<close>

definition fit_groups :: "execute_args \<Rightarrow> group list" where
  "fit_groups a = keys (fit_indices a)"

definition topredict_groups :: "execute_args \<Rightarrow> group list" where
  "topredict_groups a = keys (topredict_indices a)"

definition match_groups :: "execute_args \<Rightarrow> group list" where
  "match_groups a = intersect1d (fit_groups a) (topredict_groups a)"

text \<open>Lines 77 to 82: the rows the model is fitted on.\<close>

fun extend_fit_index :: "index_dict \<Rightarrow> group list \<Rightarrow> nat list \<Rightarrow> error + nat list" where
  "extend_fit_index indices [] fit_index = Inr fit_index"
| "extend_fit_index indices (mgroup # rest) fit_index =
     (case lookup indices mgroup of
        Inl e \<Rightarrow> Inl e
      | Inr entry \<Rightarrow> extend_fit_index indices rest (fit_index @ test_index entry))"

definition fit_arrays :: "execute_args \<Rightarrow> error + (matrix \<times> vector)" where
  "fit_arrays a =
     (if arg_fit_only_on_matched_groups a = 1 then
        (case extend_fit_index (fit_indices a) (match_groups a) [] of
           Inl e \<Rightarrow> Inl e
         | Inr fit_index \<Rightarrow>
             (case take_rows (data_Xdata a) fit_index of
                Inl e \<Rightarrow> Inl e
              | Inr fit_Xdata \<Rightarrow>
                  (case take_rows (data_ydata a) fit_index of
                     Inl e \<Rightarrow> Inl e
                   | Inr fit_ydata \<Rightarrow> Inr (fit_Xdata, fit_ydata))))
      else Inr (data_Xdata a, data_ydata a))"

text \<open>Lines 84 to 90: the rows of supported and of unsupported groups.\<close>

fun split_index ::
  "index_dict \<Rightarrow> group list \<Rightarrow> group list \<Rightarrow> nat list \<times> nat list
     \<Rightarrow> error + (nat list \<times> nat list)" where
  "split_index indices matched [] (supported_index, unsupported_index) =
     Inr (supported_index, unsupported_index)"
| "split_index indices matched (pgroup # rest) (supported_index, unsupported_index) =
     (if pgroup \<in> set matched then
        (case lookup indices pgroup of
           Inl e \<Rightarrow> Inl e
         | Inr entry \<Rightarrow>
             split_index indices matched rest
               (supported_index @ test_index entry, unsupported_index))
      else
        (case lookup indices pgroup of
           Inl e \<Rightarrow> Inl e
         | Inr entry \<Rightarrow>
             split_index indices matched rest
               (supported_index, unsupported_index @ test_index entry)))"

definition supported_unsupported :: "execute_args \<Rightarrow> error + (nat list \<times> nat list)" where
  "supported_unsupported a =
     split_index (topredict_indices a) (match_groups a) (topredict_groups a) ([], [])"

text \<open>
  Lines 100 to 104: the three statistics, in the order overall, supported, unsupported.
  Each is \<open>np.sqrt(mean_squared_error(...))\<close> on the selected rows; the first exception
  ends the run. The calls of the metric are returned with the outcome.
\<close>

definition rms_on :: "vector \<Rightarrow> vector \<Rightarrow> nat list \<Rightarrow> event list \<times> (error + real)" where
  "rms_on ydata Ypredict index =
     (case take_rows ydata index of
        Inl e \<Rightarrow> ([], Inl e)
      | Inr y \<Rightarrow>
          (case take_rows Ypredict index of
             Inl e \<Rightarrow> ([], Inl e)
           | Inr p \<Rightarrow>
               ([MeanSquaredError y p],
                case mean_squared_error y p of Inl e \<Rightarrow> Inl e | Inr mse \<Rightarrow> Inr (sqrt mse))))"

definition rms_statistics ::
  "vector \<Rightarrow> vector \<Rightarrow> nat list \<Rightarrow> nat list \<Rightarrow> event list \<times> (error + real \<times> real \<times> real)" where
  "rms_statistics ydata Ypredict supported_index unsupported_index =
     (let overall_call = [MeanSquaredError ydata Ypredict] in
      case mean_squared_error ydata Ypredict of
        Inl e \<Rightarrow> (overall_call, Inl e)
      | Inr overall_mse \<Rightarrow>
          (case rms_on ydata Ypredict supported_index of
             (supported_calls, Inl e) \<Rightarrow> (overall_call @ supported_calls, Inl e)
           | (supported_calls, Inr supported_rms) \<Rightarrow>
               (case rms_on ydata Ypredict unsupported_index of
                  (unsupported_calls, Inl e) \<Rightarrow>
                    (overall_call @ supported_calls @ unsupported_calls, Inl e)
                | (unsupported_calls, Inr unsupported_rms) \<Rightarrow>
                    (overall_call @ supported_calls @ unsupported_calls,
                     Inr (sqrt overall_mse, supported_rms, unsupported_rms)))))"

text \<open>
  What a completed run leaves behind: the fitted state, the predictions, the three
  statistics of the note list, and the arrays handed to
  \<open>plotpm.single_supported_unsupported\<close>.
\<close>

record 's execute_result =
  fitted :: 's
  Ypredict :: vector
  std_Ypredict :: "vector option"
  overall_rms :: real
  supported_rms :: real
  unsupported_rms :: real
  plot_supported :: "vector \<times> vector"
  plot_unsupported :: "vector \<times> vector"
  xerr_supported :: vector
  xerr_unsupported :: vector

definition plot_arguments ::
  "'s \<Rightarrow> vector \<Rightarrow> vector option \<Rightarrow> real \<times> real \<times> real \<Rightarrow> vector \<Rightarrow> vector
     \<Rightarrow> nat list \<Rightarrow> nat list \<Rightarrow> error + 's execute_result" where
  "plot_arguments state Yp std_Yp rms ydata ydata_err supported_index unsupported_index =
     (case take_rows ydata_err supported_index of
        Inl e \<Rightarrow> Inl e
      | Inr xerr_s \<Rightarrow>
          (case take_rows ydata_err unsupported_index of
             Inl e \<Rightarrow> Inl e
           | Inr xerr_u \<Rightarrow>
               (case take_rows ydata supported_index of
                  Inl e \<Rightarrow> Inl e
                | Inr y_s \<Rightarrow>
                    (case take_rows Yp supported_index of
                       Inl e \<Rightarrow> Inl e
                     | Inr p_s \<Rightarrow>
                         (case take_rows ydata unsupported_index of
                            Inl e \<Rightarrow> Inl e
                          | Inr y_u \<Rightarrow>
                              (case take_rows Yp unsupported_index of
                                 Inl e \<Rightarrow> Inl e
                               | Inr p_u \<Rightarrow>
                                   Inr \<lparr>fitted = state, Ypredict = Yp, std_Ypredict = std_Yp,
                                        overall_rms = fst rms, supported_rms = fst (snd rms),
                                        unsupported_rms = snd (snd rms),
                                        plot_supported = (y_s, p_s),
                                        plot_unsupported = (y_u, p_u),
                                        xerr_supported = xerr_s,
                                        xerr_unsupported = xerr_u\<rparr>))))))"

text \<open>
  The whole function: the calls made on the model and the metric, and the outcome.
  \<open>plot_filter_out\<close> is bound as a parameter and not read.
\<close>

definition execute :: "'s model \<Rightarrow> execute_args \<Rightarrow> event list \<times> (error + 's execute_result)" where
  "execute m a =
     (let topredict_ydata_err =
            (case measerr_data a of
               Some err \<Rightarrow> err
             | None \<Rightarrow> replicate (length (topredict_ydata a)) 0)
      in
      case fit_arrays a of
        Inl e \<Rightarrow> ([], Inl e)
      | Inr (fit_Xdata, fit_ydata) \<Rightarrow>
          (case supported_unsupported a of
             Inl e \<Rightarrow> ([], Inl e)
           | Inr (supported_index, unsupported_index) \<Rightarrow>
               (let state = fit m fit_Xdata fit_ydata;
                    Yp = predict m state (topredict_Xdata a);
                    std_Yp = map_option (predict m state) (std_Xdata a);
                    model_calls =
                      [Fit fit_Xdata fit_ydata, Predict (topredict_Xdata a)]
                      @ (case std_Xdata a of None \<Rightarrow> [] | Some std_X \<Rightarrow> [Predict std_X])
                in
                case rms_statistics (topredict_ydata a) Yp supported_index unsupported_index of
                  (metric_calls, Inl e) \<Rightarrow> (model_calls @ metric_calls, Inl e)
                | (metric_calls, Inr rms) \<Rightarrow>
                    (model_calls @ metric_calls,
                     plot_arguments state Yp std_Yp rms (topredict_ydata a)
                       topredict_ydata_err supported_index unsupported_index))))"

section \<open>SingleFitGrouped: data set-up and per-group statistics\<close>

subsection \<open>Collaborators outside these sources\<close>

text \<open>
  Modelled from the spec: \<open>gttd.get_logo_indices\<close> (the GroupIndexer of section 4.1),
  whose source is not among these files. It maps each distinct label to the ordered list
  of the row numbers bearing it, in original row order; the labels are kept in the order
  of their first occurrence.
\<close>

fun first_occurrences :: "group list \<Rightarrow> group list" where
  "first_occurrences [] = []"
| "first_occurrences (g # gs) = g # filter (\<lambda>h. h \<noteq> g) (first_occurrences gs)"

definition get_logo_indices :: "group list \<Rightarrow> index_dict" where
  "get_logo_indices labels =
     map (\<lambda>g. (g, \<lparr>test_index = filter (\<lambda>i. labels ! i = g) [0..<length labels]\<rparr>))
       (first_occurrences labels)"

text \<open>
  Modelled from the spec: the operations of the dataset collaborator (section 6) that
  these sources call. A row matches an equality filter on a text when its label in the
  field is that text. The reads return the rows that match no registered filter, in
  their original order: \<open>get_data\<close> a named column of labels, \<open>get_x_data\<close> the feature
  matrix, \<open>get_y_data\<close> the target vector, which is \<open>None\<close> for a dataset without target
  column. \<open>add_exclusive_filter\<close> registers one more triplet.
\<close>

definition filter_matches ::
  "dataset \<Rightarrow> data_row \<Rightarrow> string \<times> string \<times> filter_value \<Rightarrow> bool" where
  "filter_matches ds r triplet =
     (case triplet of
        (field, operator, Text t) \<Rightarrow>
          if operator = ''='' then label_of r field = t
          else other_operators ds operator r field (Text t)
      | (field, operator, Number x) \<Rightarrow> other_operators ds operator r field (Number x))"

definition visible_rows :: "dataset \<Rightarrow> data_row list" where
  "visible_rows ds =
     filter (\<lambda>r. \<not> list_ex (filter_matches ds r) (exclusive_filters ds)) (data_rows ds)"

definition get_data :: "dataset \<Rightarrow> string \<Rightarrow> group list" where
  "get_data ds feature = map (\<lambda>r. label_of r feature) (visible_rows ds)"

definition get_x_data :: "dataset \<Rightarrow> matrix" where
  "get_x_data ds = map (\<lambda>r. map (number_of r) (x_features ds)) (visible_rows ds)"

definition get_y_data :: "dataset \<Rightarrow> vector option" where
  "get_y_data ds =
     (case y_feature ds of
        None \<Rightarrow> None
      | Some feature \<Rightarrow> Some (map (\<lambda>r. number_of r feature) (visible_rows ds)))"

definition add_exclusive_filter ::
  "dataset \<Rightarrow> string \<Rightarrow> string \<Rightarrow> filter_value \<Rightarrow> dataset" where
  "add_exclusive_filter ds field operator v =
     ds\<lparr>exclusive_filters := exclusive_filters ds @ [(field, operator, v)]\<rparr>"

subsection \<open>The parent class\<close>

text \<open>
  Modelled from the spec: the parent class \<open>SingleFit\<close>, whose source is not among these
  files. Section 5 of the specification: of all operations only the FitEvaluator's calls
  of \<open>fit\<close> and \<open>predict\<close> reach the model; section 2 orders the data flow: datasets, group
  indices, group matching, fit filter, then fit and predict, then the statistics.
  Accordingly the parent's constructor stores its arguments, and its \<open>set_data\<close> reads
  the feature matrix and the target vector of the two datasets, after the filters
  registered on them; neither calls the model.
\<close>

definition SingleFit_init :: "dataset \<Rightarrow> dataset \<Rightarrow> string list option \<Rightarrow> sfg" where
  "SingleFit_init training testing plot_filter =
     \<lparr>training_dataset = training, testing_dataset = testing,
      plot_filter_out = plot_filter, plotting_index = [],
      training_input_data = [], training_target_data = None,
      testing_input_data = [], testing_target_data = None,
      testing_target_prediction = [], grouping_feature = [],
      mark_outlying_groups = 0, fit_only_on_matched_groups = 0,
      train_group_data = [], train_group_indices = [], train_groups = [],
      test_group_data = [], test_group_indices = [], test_groups = [],
      per_group_statistics = Map.empty, outlying_groups = []\<rparr>"

definition SingleFit_set_data :: "sfg \<Rightarrow> sfg" where
  "SingleFit_set_data s =
     s\<lparr>training_input_data := get_x_data (training_dataset s),
       training_target_data := get_y_data (training_dataset s),
       testing_input_data := get_x_data (testing_dataset s),
       testing_target_data := get_y_data (testing_dataset s)\<rparr>"

subsection \<open>__init__\<close>

text \<open>
  The constructor runs the parent's constructor and then checks \<open>grouping_feature\<close>. The
  attributes the source sets to \<open>None\<close> until \<open>set_group_info\<close> fills them are empty here.
\<close>

definition init ::
  "dataset \<Rightarrow> dataset \<Rightarrow> string list option \<Rightarrow> string option \<Rightarrow> int \<Rightarrow> int \<Rightarrow> error + sfg" where
  "init training testing plot_filter grouping_feature_arg mark_outlying_groups_arg
       fit_only_on_matched_groups_arg =
     (let self = SingleFit_init training testing plot_filter in
      case grouping_feature_arg of
        None \<Rightarrow> Inl ValueError
      | Some feature \<Rightarrow>
          Inr (self\<lparr>grouping_feature := feature,
                    mark_outlying_groups := mark_outlying_groups_arg,
                    fit_only_on_matched_groups := fit_only_on_matched_groups_arg,
                    train_group_data := [], train_group_indices := [],
                    train_groups := [], test_group_data := [],
                    test_group_indices := [], test_groups := [],
                    per_group_statistics := Map.empty, outlying_groups := []\<rparr>))"

subsection \<open>set_group_info and set_data\<close>

definition set_group_info :: "sfg \<Rightarrow> sfg" where
  "set_group_info s =
     (let train_data = get_data (training_dataset s) (grouping_feature s);
          train_indices = get_logo_indices train_data;
          test_data = get_data (testing_dataset s) (grouping_feature s);
          test_indices = get_logo_indices test_data
      in s\<lparr>train_group_data := train_data, train_group_indices := train_indices,
            train_groups := keys train_indices, test_group_data := test_data,
            test_group_indices := test_indices, test_groups := keys test_indices\<rparr>)"

text \<open>
  Lines 119 to 122 of \<open>set_data\<close>: one exclusive filter on the training dataset for
  each training group that is not a test group.
\<close>

definition exclude_unmatched :: "sfg \<Rightarrow> sfg" where
  "exclude_unmatched s =
     (if fit_only_on_matched_groups s = 1 then
        s\<lparr>training_dataset :=
            fold (\<lambda>grp ds. add_exclusive_filter ds (grouping_feature s) ''='' (Text grp))
              (setdiff1d (train_groups s) (test_groups s)) (training_dataset s)\<rparr>
      else s)"

definition set_data :: "sfg \<Rightarrow> error + sfg" where
  "set_data s =
     (let s' = SingleFit_set_data (exclude_unmatched (set_group_info s)) in
      if testing_target_data s' = None then Inl ValueError else Inr s')"

subsection \<open>get_per_group_statistics\<close>

text \<open>
  The three lines computing a group's RMSE, which the source repeats for the filtered
  rows. Subscripting \<open>None\<close> raises \<open>TypeError\<close>.
\<close>

definition group_rmse :: "sfg \<Rightarrow> nat list \<Rightarrow> error + real" where
  "group_rmse s g_index =
     (case take_rows (testing_target_prediction s) g_index of
        Inl e \<Rightarrow> Inl e
      | Inr g_ypredict \<Rightarrow>
          (case testing_target_data s of
             None \<Rightarrow> Inl TypeError
           | Some target \<Rightarrow>
               (case take_rows target g_index of
                  Inl e \<Rightarrow> Inl e
                | Inr g_ydata \<Rightarrow>
                    (case mean_squared_error g_ypredict g_ydata of
                       Inl e \<Rightarrow> Inl e
                     | Inr mse \<Rightarrow> Inr (sqrt mse)))))"

text \<open>\<open>stats[grp][key] = v\<close> on the dict of dicts.\<close>

definition set_statistic ::
  "(group \<rightharpoonup> (string \<rightharpoonup> real)) \<Rightarrow> group \<Rightarrow> string \<Rightarrow> real
     \<Rightarrow> error + (group \<rightharpoonup> (string \<rightharpoonup> real))" where
  "set_statistic stats grp key v =
     (case stats grp of
        None \<Rightarrow> Inl KeyError
      | Some d \<Rightarrow> Inr (stats(grp \<mapsto> d(key \<mapsto> v))))"

text \<open>
  The loop over \<open>self.test_groups\<close>; it reads the object and writes only
  \<open>self.per_group_statistics\<close>, which is threaded through.
\<close>

fun per_group_loop ::
  "sfg \<Rightarrow> group list \<Rightarrow> (group \<rightharpoonup> (string \<rightharpoonup> real))
     \<Rightarrow> error + (group \<rightharpoonup> (string \<rightharpoonup> real))" where
  "per_group_loop s [] stats = Inr stats"
| "per_group_loop s (grp # rest) stats =
     (case lookup (test_group_indices s) grp of
        Inl e \<Rightarrow> Inl e
      | Inr entry \<Rightarrow>
          (case group_rmse s (test_index entry) of
             Inl e \<Rightarrow> Inl e
           | Inr g_rmse \<Rightarrow>
               (case set_statistic (stats(grp \<mapsto> Map.empty)) grp ''rmse'' g_rmse of
                  Inl e \<Rightarrow> Inl e
                | Inr stats1 \<Rightarrow>
                    if plot_filter_out s \<noteq> None then
                      (let g_index = intersect1d (test_index entry) (plotting_index s) in
                       if length g_index > 0 then
                         (case group_rmse s g_index of
                            Inl e \<Rightarrow> Inl e
                          | Inr g_rmse_filtered \<Rightarrow>
                              (case set_statistic stats1 grp ''rmse_plot_filter_out''
                                      g_rmse_filtered of
                                 Inl e \<Rightarrow> Inl e
                               | Inr stats2 \<Rightarrow> per_group_loop s rest stats2))
                       else per_group_loop s rest stats1)
                    else per_group_loop s rest stats1)))"

definition get_per_group_statistics :: "sfg \<Rightarrow> error + sfg" where
  "get_per_group_statistics s =
     (case per_group_loop s (test_groups s) (per_group_statistics s) of
        Inl e \<Rightarrow> Inl e
      | Inr stats \<Rightarrow> Inr (s\<lparr>per_group_statistics := stats\<rparr>))"

text \<open>
  \<open>get_statistics\<close>: the parent's statistics (parameter \<open>parent_get_statistics\<close>), then
  the per-group statistics, then the outlying groups.
\<close>

definition get_statistics :: "(sfg \<Rightarrow> error + sfg) \<Rightarrow> sfg \<Rightarrow> error + sfg" where
  "get_statistics parent_get_statistics s =
     (case parent_get_statistics s of
        Inl e \<Rightarrow> Inl e
      | Inr s1 \<Rightarrow>
          (case get_per_group_statistics s1 of
             Inl e \<Rightarrow> Inl e
           | Inr s2 \<Rightarrow> get_outlying_groups s2))"

text \<open>
  Modelled from the spec: the order of the workflow (sections 2 and 5), whose drivers,
  the parent's \<open>run\<close>, \<open>fit\<close> and \<open>predict\<close>, are not among these files: the data are
  set up, the model is fitted once on the training arrays and then predicts once for the
  whole testing feature matrix, and the statistics follow. A training dataset without
  target column cannot be fitted. \<open>workflow\<close> constructs the object and runs it. The
  calls made on the model are returned with the outcome.
\<close>

definition run ::
  "'s model \<Rightarrow> (sfg \<Rightarrow> error + sfg) \<Rightarrow> sfg \<Rightarrow> event list \<times> (error + sfg)" where
  "run m parent_get_statistics s =
     (case set_data s of
        Inl e \<Rightarrow> ([], Inl e)
      | Inr s1 \<Rightarrow>
          (case training_target_data s1 of
             None \<Rightarrow> ([], Inl ValueError)
           | Some target \<Rightarrow>
               (let state = fit m (training_input_data s1) target;
                    s2 = s1\<lparr>testing_target_prediction :=
                              predict m state (testing_input_data s1)\<rparr>
                in ([Fit (training_input_data s1) target, Predict (testing_input_data s1)],
                    get_statistics parent_get_statistics s2))))"

definition workflow ::
  "'s model \<Rightarrow> (sfg \<Rightarrow> error + sfg) \<Rightarrow> dataset \<Rightarrow> dataset \<Rightarrow> string list option
     \<Rightarrow> string option \<Rightarrow> int \<Rightarrow> int \<Rightarrow> event list \<times> (error + sfg)" where
  "workflow m parent_get_statistics training testing plot_filter grouping_feature_arg
       mark_outlying_groups_arg fit_only_on_matched_groups_arg =
     (case init training testing plot_filter grouping_feature_arg mark_outlying_groups_arg
             fit_only_on_matched_groups_arg of
        Inl e \<Rightarrow> ([], Inl e)
      | Inr s \<Rightarrow> run m parent_get_statistics s)"

subsection \<open>Expected values, for the statements below\<close>

definition rmse_rows :: "vector \<Rightarrow> vector \<Rightarrow> nat list \<Rightarrow> real" where
  "rmse_rows y y_hat index =
     sqrt ((\<Sum>i\<leftarrow>index. (y_hat ! i - y ! i)\<^sup>2) / real (length index))"

definition group_rows :: "sfg \<Rightarrow> group \<Rightarrow> nat list" where
  "group_rows s g = (case map_of (test_group_indices s) g of None \<Rightarrow> [] | Some entry \<Rightarrow> test_index entry)"

definition well_formed_groups :: "sfg \<Rightarrow> vector \<Rightarrow> bool" where
  "well_formed_groups s target \<longleftrightarrow>
     testing_target_data s = Some target \<and>
     length (testing_target_prediction s) = length target \<and>
     set (test_groups s) \<subseteq> fst ` set (test_group_indices s) \<and>
     list_all (\<lambda>g. group_rows s g \<noteq> [] \<and> list_all (\<lambda>i. i < length target) (group_rows s g))
       (test_groups s)"

text \<open>The row numbers of one entry of a group index dictionary.\<close>

definition rows :: "group \<times> logo_entry \<Rightarrow> nat list" where
  "rows e = test_index (snd e)"

definition expected_group_statistics :: "sfg \<Rightarrow> vector \<Rightarrow> group \<Rightarrow> (string \<rightharpoonup> real)" where
  "expected_group_statistics s target g =
     (let shown = intersect1d (group_rows s g) (plotting_index s);
          d = [''rmse'' \<mapsto> rmse_rows target (testing_target_prediction s) (group_rows s g)]
      in if plot_filter_out s \<noteq> None \<and> shown \<noteq> []
         then d(''rmse_plot_filter_out'' \<mapsto> rmse_rows target (testing_target_prediction s) shown)
         else d)"

section \<open>ExtrapolateFullFit.execute\<close>

subsection \<open>String primitives\<close>

text \<open>
  \<open>str.split(sep)\<close> for a one-character separator: the text is cut at every occurrence,
  so that the empty text yields one empty piece. \<open>str.strip()\<close>: leading and trailing
  ASCII whitespace is removed.
\<close>

fun split_on :: "char \<Rightarrow> string \<Rightarrow> string list" where
  "split_on sep [] = [[]]"
| "split_on sep (c # cs) =
     (if c = sep then [] # split_on sep cs
      else (case split_on sep cs of
              [] \<Rightarrow> [[c]]
            | piece # pieces \<Rightarrow> (c # piece) # pieces))"

definition is_space :: "char \<Rightarrow> bool" where
  "is_space c \<longleftrightarrow> c = CHR '' '' \<or> (9 \<le> (of_char c :: nat) \<and> (of_char c :: nat) \<le> 13)
     \<or> (28 \<le> (of_char c :: nat) \<and> (of_char c :: nat) \<le> 31)"

definition strip :: "string \<Rightarrow> string" where
  "strip s = rev (dropWhile is_space (rev (dropWhile is_space s)))"

subsection \<open>The plot filters\<close>

text \<open>
  Lines 63 to 74, and again lines 124 to 135: every semicolon-delimited piece of
  \<open>plot_filter_out\<close> is cut at the commas; its first three pieces are the field, the
  operator and the value of an exclusive filter, and a piece with fewer raises
  \<open>IndexError\<close>. The value is converted with \<open>float\<close> when that succeeds and stays a text
  otherwise. Python's \<open>float\<close> on a text is the parameter \<open>py_float\<close>.
\<close>

definition item :: "'a list \<Rightarrow> nat \<Rightarrow> error + 'a" where
  "item xs i = (if i < length xs then Inr (xs ! i) else Inl IndexError)"

fun add_plot_filters ::
  "(string \<Rightarrow> real option) \<Rightarrow> string list \<Rightarrow> dataset \<Rightarrow> error + dataset" where
  "add_plot_filters py_float [] ds = Inr ds"
| "add_plot_filters py_float (ftriplet # rest) ds =
     (let fpcs = split_on CHR '','' ftriplet in
      case item fpcs 0 of
        Inl e \<Rightarrow> Inl e
      | Inr p0 \<Rightarrow>
          (case item fpcs 1 of
             Inl e \<Rightarrow> Inl e
           | Inr p1 \<Rightarrow>
               (case item fpcs 2 of
                  Inl e \<Rightarrow> Inl e
                | Inr p2 \<Rightarrow>
                    (let ffield = strip p0; foperator = strip p1;
                         fval = (case py_float (strip p2) of
                                   Some x \<Rightarrow> Number x
                                 | None \<Rightarrow> Text (strip p2))
                     in add_plot_filters py_float rest
                          (add_exclusive_filter ds ffield foperator fval)))))"

definition filter_for_plot ::
  "(string \<Rightarrow> real option) \<Rightarrow> string \<Rightarrow> dataset \<Rightarrow> error + dataset" where
  "filter_for_plot py_float plot_filter ds =
     (if length plot_filter > 0
      then add_plot_filters py_float (split_on CHR '';'' plot_filter) ds
      else Inr ds)"

subsection \<open>The training and testing arrays\<close>

text \<open>
  The keyword arguments of a call of \<open>FullFit.do_full_fit\<close>, the function that fits the
  model and whose source is not among these files. The entries that only label or place
  the plots (axis labels, step size, save path, label and error columns) are left out.
\<close>

record do_full_fit_kwargs =
  full_xtrain :: matrix
  full_ytrain :: "vector option"
  full_xtest :: matrix
  full_ytest :: "vector option"
  kw_numeric_field_name :: string
  kw_group_field_name :: "string option"
  kw_test_numericdata :: "group list"
  kw_test_groupdata :: "group list option"
  kw_train_groupdata :: "group list option"

text \<open>
  Lines 82 to 93: with \<open>fit_only_on_matched_groups = 1\<close> and a group field, one
  exclusive filter on \<open>data\<close> for each group of the training column that is absent from
  the test column, and the training arrays are read again; without a group field nothing
  is done.
\<close>

definition restrict_to_matched :: "int \<Rightarrow> string option \<Rightarrow> dataset \<Rightarrow> dataset \<Rightarrow> dataset" where
  "restrict_to_matched fit_only group_field_name data test_data =
     (if fit_only = 1 then
        (case group_field_name of
           None \<Rightarrow> data
         | Some field \<Rightarrow>
             (let train_groupdata = get_data data field;
                  test_groupdata = get_data test_data field;
                  groups_not_in_test = setdiff1d train_groupdata test_groupdata
              in fold (\<lambda>outgroup ds. add_exclusive_filter ds field ''='' (Text outgroup))
                   groups_not_in_test data))
      else data)"

text \<open>
  \<open>execute\<close> of \<open>ExtrapolateFullFit\<close> up to and including its calls of
  \<open>FullFit.do_full_fit\<close>; the plots drawn from the returned arrays are left out. The
  arguments \<open>test_csv\<close> and \<open>standard_csv\<close> stand for the datasets parsed from the files
  of these names; the conversion of \<open>stepsize\<close>, which only spaces the plot grid, is
  left out. The training arrays are read at the start and, when groups were excluded,
  read again. The result holds the keyword arguments of the calls made, in order, and
  the dataset \<open>data\<close> as the run leaves it, or the exception raised.
\<close>

definition full_fit_kwargs ::
  "matrix \<Rightarrow> vector option \<Rightarrow> string \<Rightarrow> string option \<Rightarrow> dataset \<Rightarrow> dataset
     \<Rightarrow> do_full_fit_kwargs" where
  "full_fit_kwargs train_xdata train_ydata numeric_field_name group_field_name
       groups_from tested =
     \<lparr>full_xtrain = train_xdata, full_ytrain = train_ydata,
      full_xtest = get_x_data tested, full_ytest = get_y_data tested,
      kw_numeric_field_name = numeric_field_name,
      kw_group_field_name = group_field_name,
      kw_test_numericdata = get_data tested numeric_field_name,
      kw_test_groupdata = map_option (get_data tested) group_field_name,
      kw_train_groupdata = map_option (get_data groups_from) group_field_name\<rparr>"

definition execute_full_fit ::
  "(string \<Rightarrow> real option) \<Rightarrow> dataset \<Rightarrow> dataset option \<Rightarrow> dataset option \<Rightarrow> string option
     \<Rightarrow> string option \<Rightarrow> string \<Rightarrow> int
     \<Rightarrow> do_full_fit_kwargs list \<times> (error + dataset)" where
  "execute_full_fit py_float data test_csv standard_csv group_field_name numeric_field_name
       plot_filter fit_only =
     (let train_xdata0 = get_x_data data; train_ydata0 = get_y_data data in
      case test_csv of
        None \<Rightarrow> ([], Inl ValueError)
      | Some parsed_test \<Rightarrow>
          (case filter_for_plot py_float plot_filter parsed_test of
             Inl e \<Rightarrow> ([], Inl e)
           | Inr filtered_test \<Rightarrow>
               (let test_data = filtered_test\<lparr>y_feature := y_feature data,
                                              x_features := x_features data\<rparr>
                in
                case (case numeric_field_name of
                        None \<Rightarrow> item (x_features data) 0
                      | Some field \<Rightarrow> Inr field) of
                  Inl e \<Rightarrow> ([], Inl e)
                | Inr numeric \<Rightarrow>
                    (let data' = restrict_to_matched fit_only group_field_name data test_data;
                         read_again = (fit_only = 1 \<and> group_field_name \<noteq> None);
                         train_xdata = (if read_again then get_x_data data' else train_xdata0);
                         train_ydata = (if read_again then get_y_data data' else train_ydata0);
                         kwargs_f = full_fit_kwargs train_xdata train_ydata numeric
                                      group_field_name data' test_data
                     in
                     case standard_csv of
                       None \<Rightarrow> ([kwargs_f], Inr data')
                     | Some parsed_std \<Rightarrow>
                         (case filter_for_plot py_float plot_filter parsed_std of
                            Inl e \<Rightarrow> ([kwargs_f], Inl e)
                          | Inr filtered_std \<Rightarrow>
                              (case item (x_features data') 0 of
                                 Inl e \<Rightarrow> ([kwargs_f], Inl e)
                               | Inr dummy \<Rightarrow>
                                   (let std_data =
                                          filtered_std\<lparr>y_feature := Some dummy,
                                                         x_features := x_features data'\<rparr>;
                                        kwargs_s = full_fit_kwargs train_xdata train_ydata
                                                     numeric group_field_name std_data std_data
                                    in ([kwargs_f, kwargs_s], Inr data'))))))))"

definition sel_inv :: "nat \<Rightarrow> (real \<times> group) set \<Rightarrow> (real \<times> group) list \<Rightarrow> bool" where
  "sel_inv n C hs \<longleftrightarrow>
     length hs = n \<and>
     (\<forall>e\<in>set hs. e = nogroup \<or> e \<in> C) \<and>
     distinct (filter (\<lambda>e. e \<noteq> nogroup) hs) \<and>
     (\<forall>c\<in>C. c \<notin> set hs \<longrightarrow> (\<forall>e\<in>set hs. fst c \<le> fst e)) \<and>
     (\<forall>c\<in>C. 0 < fst c)"

definition group_value :: "(group \<rightharpoonup> (string \<rightharpoonup> real)) \<Rightarrow> string \<Rightarrow> group \<Rightarrow> real option" where
  "group_value stats crit g = (case stats g of None \<Rightarrow> None | Some gstats \<Rightarrow> gstats crit)"

definition present_values ::
  "(group \<rightharpoonup> (string \<rightharpoonup> real)) \<Rightarrow> string \<Rightarrow> group list \<Rightarrow> (real \<times> group) list" where
  "present_values stats crit gs =
     concat (map (\<lambda>g. case group_value stats crit g of None \<Rightarrow> [] | Some v \<Rightarrow> [(v, g)]) gs)"

definition min_slot :: "(real \<times> group) list \<Rightarrow> nat" where
  "min_slot hs = length (takeWhile (\<lambda>e. e \<noteq> Min (set hs)) hs)"

definition replace_step ::
  "(group \<rightharpoonup> (string \<rightharpoonup> real)) \<Rightarrow> string \<Rightarrow> group \<Rightarrow> (real \<times> group) list
     \<Rightarrow> (real \<times> group) list" where
  "replace_step stats crit g hs =
     (case group_value stats crit g of
        None \<Rightarrow> hs
      | Some v \<Rightarrow> if fst (Min (set hs)) < v then hs[min_slot hs := (v, g)] else hs)"

definition positive_values ::
  "(group \<rightharpoonup> (string \<rightharpoonup> real)) \<Rightarrow> string \<Rightarrow> group list \<Rightarrow> (real \<times> group) list" where
  "positive_values stats crit gs = filter (\<lambda>e. 0 < fst e) (present_values stats crit gs)"

definition non_sentinel :: "(real \<times> group) list \<Rightarrow> (real \<times> group) list" where
  "non_sentinel hs = filter (\<lambda>e. e \<noteq> nogroup) hs"

definition bounded_min_replacement ::
  "(group \<rightharpoonup> (string \<rightharpoonup> real)) \<Rightarrow> string \<Rightarrow> int \<Rightarrow> group list \<Rightarrow> (real \<times> group) list" where
  "bounded_min_replacement stats crit k gs =
     fold (replace_step stats crit) gs (replicate (nat (min k (int (length gs)))) nogroup)"

definition spec_min_value :: "(real \<times> group) list \<Rightarrow> real" where
  "spec_min_value hs = Min (set (map fst hs))"

definition spec_min_slot :: "(real \<times> group) list \<Rightarrow> nat" where
  "spec_min_slot hs = length (takeWhile (\<lambda>e. fst e \<noteq> spec_min_value hs) hs)"

definition spec_replace_step ::
  "(group \<rightharpoonup> (string \<rightharpoonup> real)) \<Rightarrow> string \<Rightarrow> group \<Rightarrow> (real \<times> group) list
     \<Rightarrow> (real \<times> group) list" where
  "spec_replace_step stats crit g hs =
     (case group_value stats crit g of
        None \<Rightarrow> hs
      | Some v \<Rightarrow>
          if hs \<noteq> [] \<and> spec_min_value hs < v then hs[spec_min_slot hs := (v, g)] else hs)"

definition spec_select_outliers ::
  "(group \<rightharpoonup> (string \<rightharpoonup> real)) \<Rightarrow> string \<Rightarrow> int \<Rightarrow> group list \<Rightarrow> (real \<times> group) list" where
  "spec_select_outliers stats crit k gs =
     fold (spec_replace_step stats crit) gs (replicate (nat (min k (int (length gs)))) nogroup)"

definition dataset0 :: dataset where
  "dataset0 =
     \<lparr>data_rows = [], x_features = [], y_feature = None, exclusive_filters = [],
      other_operators = (\<lambda>operator r field v. False)\<rparr>"

definition sfg0 :: sfg where
  "sfg0 =
     \<lparr>training_dataset = dataset0, testing_dataset = dataset0,
      plot_filter_out = None, plotting_index = [],
      training_input_data = [], training_target_data = None,
      testing_input_data = [], testing_target_data = None,
      testing_target_prediction = [], grouping_feature = ''group'',
      mark_outlying_groups = 2, fit_only_on_matched_groups = 0,
      train_group_data = [], train_group_indices = [], train_groups = [],
      test_group_data = [], test_group_indices = [], test_groups = [],
      per_group_statistics = Map.empty, outlying_groups = []\<rparr>"

definition abcd_example :: sfg where
  "abcd_example =
     sfg0\<lparr>test_groups := [''A'', ''B'', ''C'', ''D''],
          per_group_statistics :=
            [''A'' \<mapsto> [''rmse'' \<mapsto> 1], ''B'' \<mapsto> [''rmse'' \<mapsto> 5],
             ''C'' \<mapsto> [''rmse'' \<mapsto> 3], ''D'' \<mapsto> [''rmse'' \<mapsto> 2]]\<rparr>"

definition zero_rmse_example :: sfg where
  "zero_rmse_example =
     sfg0\<lparr>mark_outlying_groups := 2, test_groups := [''A''],
          per_group_statistics := [''A'' \<mapsto> [''rmse'' \<mapsto> 0]]\<rparr>"

definition tie_example :: sfg where
  "tie_example =
     sfg0\<lparr>test_groups := [''B'', ''A'', ''C''],
          per_group_statistics :=
            [''B'' \<mapsto> [''rmse'' \<mapsto> 2], ''A'' \<mapsto> [''rmse'' \<mapsto> 2],
             ''C'' \<mapsto> [''rmse'' \<mapsto> 3]]\<rparr>"

definition filtered_out_example :: sfg where
  "filtered_out_example =
     sfg0\<lparr>plot_filter_out := Some [''temperature;<;3000''], mark_outlying_groups := 1,
          test_groups := [''A''],
          per_group_statistics := [''A'' \<mapsto> [''rmse'' \<mapsto> 1]]\<rparr>"

definition mark_none_example :: sfg where
  "mark_none_example =
     sfg0\<lparr>mark_outlying_groups := 0, test_groups := [''A''],
          per_group_statistics := [''A'' \<mapsto> [''rmse'' \<mapsto> 1]]\<rparr>"

section \<open>Call classification and concrete inputs\<close>

fun is_fit :: "event \<Rightarrow> bool" where
  "is_fit (Fit X y) = True"
| "is_fit e = False"

fun is_predict :: "event \<Rightarrow> bool" where
  "is_predict (Predict X) = True"
| "is_predict e = False"

fun is_model_call :: "event \<Rightarrow> bool" where
  "is_model_call (MeanSquaredError y p) = False"
| "is_model_call e = True"

text \<open>A model that predicts the mean of the training targets for every row.\<close>

definition mean_model :: "real model" where
  "mean_model =
     \<lparr>fit = (\<lambda>X y. sum_list y / real (length y)), predict = (\<lambda>state X. map (\<lambda>row. state) X)\<rparr>"

text \<open>
  Training groups X and Y, evaluation groups Y and Z: evaluation rows 0 and 2 are
  labelled Y, row 1 is labelled Z.
\<close>

definition xy_yz_example :: execute_args where
  "xy_yz_example =
     \<lparr>data_Xdata = [[1], [2], [3]], data_ydata = [10, 20, 30],
      fit_indices = [(''X'', \<lparr>test_index = [0]\<rparr>), (''Y'', \<lparr>test_index = [1, 2]\<rparr>)],
      topredict_Xdata = [[4], [5], [6]], topredict_ydata = [40, 50, 60],
      topredict_indices = [(''Y'', \<lparr>test_index = [0, 2]\<rparr>), (''Z'', \<lparr>test_index = [1]\<rparr>)],
      measerr_data = None, std_Xdata = Some [[7]],
      arg_plot_filter_out = '''', arg_fit_only_on_matched_groups = 1\<rparr>"

text \<open>
  The scenario of the specification for the statistics: a model that returns the first
  feature of every row as its prediction, evaluation targets 1, 2, 3, 4 and features
  that make the predictions 1, 2, 3, 6; rows 0, 1, 2 belong to group Y, which occurs
  in the training data, and row 3 to group Z, which does not.
\<close>

definition first_feature_model :: "unit model" where
  "first_feature_model = \<lparr>fit = (\<lambda>X y. ()), predict = (\<lambda>state X. map hd X)\<rparr>"

definition scenario_example :: execute_args where
  "scenario_example =
     \<lparr>data_Xdata = [[1], [2]], data_ydata = [1, 2],
      fit_indices = [(''X'', \<lparr>test_index = [0]\<rparr>), (''Y'', \<lparr>test_index = [1]\<rparr>)],
      topredict_Xdata = [[1], [2], [3], [6]], topredict_ydata = [1, 2, 3, 4],
      topredict_indices = [(''Y'', \<lparr>test_index = [0, 1, 2]\<rparr>), (''Z'', \<lparr>test_index = [3]\<rparr>)],
      measerr_data = None, std_Xdata = None,
      arg_plot_filter_out = '''', arg_fit_only_on_matched_groups = 0\<rparr>"

text \<open>Every evaluation group (only Y) also occurs in the training data.\<close>

definition all_supported_example :: execute_args where
  "all_supported_example =
     \<lparr>data_Xdata = [[1], [2], [3]], data_ydata = [10, 20, 30],
      fit_indices = [(''X'', \<lparr>test_index = [0]\<rparr>), (''Y'', \<lparr>test_index = [1, 2]\<rparr>)],
      topredict_Xdata = [[4], [5]], topredict_ydata = [40, 50],
      topredict_indices = [(''Y'', \<lparr>test_index = [0, 1]\<rparr>)],
      measerr_data = None, std_Xdata = None,
      arg_plot_filter_out = '''', arg_fit_only_on_matched_groups = 0\<rparr>"

text \<open>
  Two test groups, A on rows 0 and 1 and B on rows 2 and 3, with a plot filter that
  leaves only rows 0 and 1 to be shown.
\<close>

definition per_group_example :: sfg where
  "per_group_example =
     sfg0\<lparr>plot_filter_out := Some [''temperature;<;3000''], plotting_index := [0, 1],
          testing_target_data := Some [1, 2, 3, 4],
          testing_target_prediction := [1, 2, 3, 6],
          test_group_indices := [(''A'', \<lparr>test_index = [0, 1]\<rparr>), (''B'', \<lparr>test_index = [2, 3]\<rparr>)],
          test_groups := [''A'', ''B'']\<rparr>"

section \<open>Rows of matched groups, for the statements below\<close>

definition rows_x :: "dataset \<Rightarrow> data_row list \<Rightarrow> matrix" where
  "rows_x ds rs = map (\<lambda>r. map (number_of r) (x_features ds)) rs"

definition rows_y :: "dataset \<Rightarrow> data_row list \<Rightarrow> vector option" where
  "rows_y ds rs =
     (case y_feature ds of
        None \<Rightarrow> None
      | Some feature \<Rightarrow> Some (map (\<lambda>r. number_of r feature) rs))"

text \<open>
  The rows a read of the dataset returns whose label in the group field is among the
  given labels of the testing data.
\<close>

definition matched_rows :: "dataset \<Rightarrow> string \<Rightarrow> group list \<Rightarrow> data_row list" where
  "matched_rows ds field test_labels =
     filter (\<lambda>r. label_of r field \<in> set test_labels) (visible_rows ds)"

definition exclude_groups :: "string \<Rightarrow> group list \<Rightarrow> dataset \<Rightarrow> dataset" where
  "exclude_groups field gs ds =
     fold (\<lambda>grp ds. add_exclusive_filter ds field ''='' (Text grp)) gs ds"

text \<open>
  A training dataset with rows of groups X, Y, Y and a testing dataset with rows of
  groups Y, Z, Y, each with one feature column \<open>x\<close> and the target column \<open>y\<close>.
\<close>

definition mk_row :: "group \<Rightarrow> real \<Rightarrow> real \<Rightarrow> data_row" where
  "mk_row g x y =
     \<lparr>number_of = (\<lambda>field. if field = ''x'' then x else if field = ''y'' then y else 0),
      label_of = (\<lambda>field. if field = ''group'' then g else [])\<rparr>"

definition training_example :: dataset where
  "training_example =
     dataset0\<lparr>data_rows := [mk_row ''X'' 1 10, mk_row ''Y'' 2 20, mk_row ''Y'' 3 30],
              x_features := [''x''], y_feature := Some ''y''\<rparr>"

definition testing_example :: dataset where
  "testing_example =
     dataset0\<lparr>data_rows := [mk_row ''Y'' 4 40, mk_row ''Z'' 5 50, mk_row ''Y'' 6 60],
              x_features := [''x''], y_feature := Some ''y''\<rparr>"

definition grouped_example :: sfg where
  "grouped_example =
     sfg0\<lparr>training_dataset := training_example, testing_dataset := testing_example,
          fit_only_on_matched_groups := 1\<rparr>"

section \<open>Helper facts: the outlier selection\<close>

lemma py_min_Inr: assumes "hs \<noteq> []" shows "py_min hs = Inr (Min (set hs))"
proof (cases hs)
  case Nil then show ?thesis using assms by simp
next
  case (Cons a list)
  have "fold min list a = Min (set (a # list))" by (rule Min.set_eq_fold [symmetric])
  then show ?thesis using Cons by (simp add: py_min_def)
qed

lemma py_index_takeWhile:
  "v \<in> set xs \<Longrightarrow> py_index xs v = Inr (length (takeWhile (\<lambda>e. e \<noteq> v) xs))"
  by (induction xs) auto

lemma update_first:
  "v \<in> set xs \<Longrightarrow>
   \<exists>ys zs. xs = ys @ v # zs \<and> v \<notin> set ys \<and>
     xs[length (takeWhile (\<lambda>e. e \<noteq> v) xs) := w] = ys @ w # zs"
proof (induction xs)
  case Nil then show ?case by simp
next
  case (Cons x xs)
  show ?case
  proof (cases "x = v")
    case True
    then show ?thesis by (intro exI[of _ "[]"] exI[of _ xs]) simp
  next
    case False
    with Cons obtain ys zs where h: "xs = ys @ v # zs" "v \<notin> set ys"
      "xs[length (takeWhile (\<lambda>e. e \<noteq> v) xs) := w] = ys @ w # zs" by auto
    show ?thesis using False h by (intro exI[of _ "x # ys"] exI[of _ zs]) simp
  qed
qed

lemma fst_Min_le:
  fixes hs :: "(real \<times> group) list"
  assumes "e \<in> set hs" shows "fst (Min (set hs)) \<le> fst e"
proof -
  have "Min (set hs) \<le> e" using assms by simp
  then show ?thesis by (cases "Min (set hs)"; cases e) (auto simp: less_eq_prod_def)
qed

lemma sel_inv_nonneg: "sel_inv n C hs \<Longrightarrow> e \<in> set hs \<Longrightarrow> 0 \<le> fst e"
  by (force simp: sel_inv_def nogroup_def)

lemma sel_inv_skip:
  assumes "sel_inv n C hs" "hs \<noteq> []" "0 < v" "v \<le> fst (Min (set hs))"
  shows "sel_inv n (insert (v, g) C) hs"
proof -
  have "\<forall>e\<in>set hs. v \<le> fst e" using assms(4) fst_Min_le by fastforce
  then show ?thesis using assms(1,3) by (auto simp: sel_inv_def)
qed

lemma sel_inv_replace:
  assumes inv: "sel_inv n C hs" and ne: "hs \<noteq> []" and v: "fst (Min (set hs)) < v"
    and new: "(v, g) \<notin> C"
  shows "sel_inv n (insert (v, g) C) (hs[length (takeWhile (\<lambda>e. e \<noteq> Min (set hs)) hs) := (v, g)])"
proof -
  define m where "m = Min (set hs)"
  have m_in: "m \<in> set hs" using ne by (simp add: m_def)
  obtain ys zs where split: "hs = ys @ m # zs" "m \<notin> set ys"
    and upd: "hs[length (takeWhile (\<lambda>e. e \<noteq> m) hs) := (v, g)] = ys @ (v, g) # zs"
    using update_first [OF m_in, of "(v, g)"] by blast
  have v': "fst m < v" using v by (simp add: m_def)
  have pos: "0 < v" using sel_inv_nonneg [OF inv m_in] v' by simp
  have vg_ng: "(v, g) \<noteq> nogroup" using pos by (auto simp: nogroup_def)
  have vg_hs: "(v, g) \<notin> set hs" using inv new vg_ng by (auto simp: sel_inv_def)
  have le_m: "\<And>e. e \<in> set hs \<Longrightarrow> fst m \<le> fst e" unfolding m_def by (rule fst_Min_le)
  have d: "distinct (filter (\<lambda>e. e \<noteq> nogroup) hs)" using inv by (simp add: sel_inv_def)
  have sets: "set (ys @ (v, g) # zs) \<subseteq> insert (v, g) (set hs)"
    using split(1) by auto
  have 1: "length (ys @ (v, g) # zs) = n"
    using inv split(1) by (metis length_list_update sel_inv_def upd)
  have 2: "\<forall>e\<in>set (ys @ (v, g) # zs). e = nogroup \<or> e \<in> insert (v, g) C"
    using inv sets by (auto simp: sel_inv_def)
  have 3: "distinct (filter (\<lambda>e. e \<noteq> nogroup) (ys @ (v, g) # zs))"
  proof -
    have "distinct (filter (\<lambda>e. e \<noteq> nogroup) (ys @ m # zs))" using d split(1) by simp
    moreover have "(v, g) \<notin> set ys" "(v, g) \<notin> set zs" using vg_hs split(1)
      by (metis Un_iff set_append, metis Un_iff list.set_intros(2) set_append)
    ultimately show ?thesis by (auto split: if_splits)
  qed
  have 4: "\<forall>c\<in>insert (v, g) C. c \<notin> set (ys @ (v, g) # zs) \<longrightarrow>
             (\<forall>e\<in>set (ys @ (v, g) # zs). fst c \<le> fst e)"
  proof (intro ballI impI)
    fix c e assume c: "c \<in> insert (v, g) C" "c \<notin> set (ys @ (v, g) # zs)"
      and e: "e \<in> set (ys @ (v, g) # zs)"
    from c have cC: "c \<in> C" by auto
    have c_le_m: "fst c \<le> fst m"
    proof (cases "c \<in> set hs")
      case True
      then have "c = m" using c(2) split(1) by (metis Un_iff insert_iff list.simps(15) set_append)
      then show ?thesis by simp
    next
      case False
      then show ?thesis using inv cC m_in by (auto simp: sel_inv_def)
    qed
    from e sets have "e = (v, g) \<or> e \<in> set hs" by auto
    then show "fst c \<le> fst e"
    proof
      assume "e = (v, g)" then show ?thesis using c_le_m v' by simp
    next
      assume "e \<in> set hs" then show ?thesis using c_le_m le_m [of e] by simp
    qed
  qed
  have 5: "\<forall>c\<in>insert (v, g) C. 0 < fst c" using inv pos by (auto simp: sel_inv_def)
  show ?thesis using 1 2 3 4 5 unfolding upd m_def [symmetric] sel_inv_def by blast
qed

lemma length_replace_step [simp]: "length (replace_step stats crit g hs) = length hs"
  by (simp add: replace_step_def split: option.splits)

lemma length_fold_replace_step [simp]:
  "length (fold (replace_step stats crit) gs hs) = length hs"
  by (induction gs arbitrary: hs) simp_all

lemma mark_loop_step:
  assumes "hs \<noteq> []" "stats g \<noteq> None"
  shows "mark_loop stats crit (g # gs) hs = mark_loop stats crit gs (replace_step stats crit g hs)"
proof -
  have "Min (set hs) \<in> set hs" using assms(1) by simp
  then have "py_index hs (Min (set hs)) = Inr (min_slot hs)"
    unfolding min_slot_def by (rule py_index_takeWhile)
  then show ?thesis using assms
    by (auto simp: py_min_Inr replace_step_def group_value_def split: option.splits)
qed

lemma mark_loop_fold:
  "hs \<noteq> [] \<Longrightarrow> \<forall>g\<in>set gs. stats g \<noteq> None \<Longrightarrow>
   mark_loop stats crit gs hs = Inr (fold (replace_step stats crit) gs hs)"
proof (induction gs arbitrary: hs)
  case Nil then show ?case by simp
next
  case (Cons g gs)
  have "replace_step stats crit g hs \<noteq> []"
    using Cons.prems(1) by (metis length_replace_step length_0_conv)
  then show ?case using Cons by (simp add: mark_loop_step del: mark_loop.simps)
qed

lemma present_values_Cons:
  "present_values stats crit (g # gs) =
     (case group_value stats crit g of None \<Rightarrow> [] | Some v \<Rightarrow> [(v, g)]) @ present_values stats crit gs"
  by (simp add: present_values_def)

lemma snd_present_values: "e \<in> set (present_values stats crit gs) \<Longrightarrow> snd e \<in> set gs"
  by (auto simp: present_values_def split: option.splits)

lemma distinct_present_values: "distinct gs \<Longrightarrow> distinct (present_values stats crit gs)"
proof (induction gs)
  case Nil then show ?case by (simp add: present_values_def)
next
  case (Cons g gs)
  then show ?case using snd_present_values [of _ stats crit gs]
    by (force simp: present_values_Cons split: option.splits)
qed

lemma sel_inv_step:
  assumes inv: "sel_inv n C hs" and ne: "hs \<noteq> []" and new: "\<forall>c\<in>C. snd c \<noteq> g"
  shows "sel_inv n (C \<union> set (positive_values stats crit [g])) (replace_step stats crit g hs)"
proof (cases "group_value stats crit g")
  case None
  then show ?thesis using inv by (simp add: positive_values_def present_values_def replace_step_def)
next
  case (Some v)
  have m_in: "Min (set hs) \<in> set hs" using ne by simp
  have m0: "0 \<le> fst (Min (set hs))" using sel_inv_nonneg [OF inv m_in] .
  show ?thesis
  proof (cases "fst (Min (set hs)) < v")
    case True
    then have pos: "0 < v" using m0 by simp
    have "(v, g) \<notin> C" using new by auto
    from sel_inv_replace [OF inv ne True this]
    show ?thesis using Some True pos
      by (simp add: positive_values_def present_values_def replace_step_def min_slot_def)
  next
    case False
    show ?thesis
    proof (cases "0 < v")
      case True
      from sel_inv_skip [OF inv ne True, of g] False
      show ?thesis using Some True
        by (simp add: positive_values_def present_values_def replace_step_def)
    next
      case nonpos: False
      then show ?thesis using Some False inv
        by (simp add: positive_values_def present_values_def replace_step_def)
    qed
  qed
qed

lemma positive_values_Cons:
  "set (positive_values stats crit (g # gs)) =
     set (positive_values stats crit [g]) \<union> set (positive_values stats crit gs)"
  by (auto simp: positive_values_def present_values_def)

lemma sel_inv_fold:
  assumes "sel_inv n C hs" "hs \<noteq> []" "distinct gs" "\<forall>c\<in>C. snd c \<notin> set gs"
  shows "sel_inv n (C \<union> set (positive_values stats crit gs)) (fold (replace_step stats crit) gs hs)"
  using assms
proof (induction gs arbitrary: C hs)
  case Nil then show ?case by (simp add: positive_values_def present_values_def)
next
  case (Cons g gs)
  let ?C = "C \<union> set (positive_values stats crit [g])"
  let ?hs = "replace_step stats crit g hs"
  have 1: "sel_inv n ?C ?hs" using Cons.prems by (intro sel_inv_step) auto
  have 2: "?hs \<noteq> []" using Cons.prems(2) by (metis length_replace_step length_0_conv)
  have 3: "distinct gs" using Cons.prems(3) by simp
  have "\<forall>c\<in>set (positive_values stats crit [g]). snd c = g"
    using snd_present_values [of _ stats crit "[g]"] by (auto simp: positive_values_def)
  then have 4: "\<forall>c\<in>?C. snd c \<notin> set gs" using Cons.prems(3,4) by auto
  have eq: "C \<union> set (positive_values stats crit (g # gs)) = ?C \<union> set (positive_values stats crit gs)"
    using positive_values_Cons [of stats crit g gs] by blast
  from Cons.IH [OF 1 2 3 4] show ?case unfolding eq by simp
qed

lemma sel_inv_init: "sel_inv n {} (replicate n nogroup)"
  by (simp add: sel_inv_def)

lemma sel_inv_all_in:
  assumes inv: "sel_inv n C hs" and fin: "finite C" and le: "card C \<le> n"
  shows "C \<subseteq> set hs"
proof (rule ccontr)
  assume "\<not> C \<subseteq> set hs"
  then obtain c where c: "c \<in> C" "c \<notin> set hs" by auto
  have c_pos: "0 < fst c" using inv c(1) by (simp add: sel_inv_def)
  have "\<forall>e\<in>set hs. fst c \<le> fst e" using inv c by (simp add: sel_inv_def)
  then have no_ng: "\<forall>e\<in>set hs. e \<noteq> nogroup" using c_pos by (auto simp: nogroup_def)
  then have "filter (\<lambda>e. e \<noteq> nogroup) hs = hs" by (simp add: filter_id_conv)
  then have "distinct hs" using inv by (simp add: sel_inv_def)
  then have card_hs: "card (set hs) = n" using inv by (simp add: sel_inv_def distinct_card)
  have "set hs \<subseteq> C - {c}" using inv no_ng c(2) by (auto simp: sel_inv_def)
  then have "card (set hs) \<le> card (C - {c})" using fin by (simp add: card_mono)
  also have "\<dots> < card C" by (rule card_Diff1_less [OF fin c(1)])
  finally show False using card_hs le by simp
qed

lemma sel_inv_full:
  assumes inv: "sel_inv n C hs" and fin: "finite C" and less: "n < card C"
  shows "nogroup \<notin> set hs"
proof
  assume ng: "nogroup \<in> set hs"
  have "C \<subseteq> set hs - {nogroup}"
  proof
    fix c assume c: "c \<in> C"
    then have c_pos: "0 < fst c" using inv by (simp add: sel_inv_def)
    have "c \<in> set hs"
    proof (rule ccontr)
      assume "c \<notin> set hs"
      then have "fst c \<le> fst nogroup" using inv c ng by (simp add: sel_inv_def)
      then show False using c_pos by (simp add: nogroup_def)
    qed
    moreover have "c \<noteq> nogroup" using c_pos by (auto simp: nogroup_def)
    ultimately show "c \<in> set hs - {nogroup}" by simp
  qed
  then have "card C \<le> card (set hs - {nogroup})" by (simp add: card_mono)
  also have "\<dots> < card (set hs)" by (rule card_Diff1_less [OF _ ng]) simp
  also have "\<dots> \<le> length hs" by (rule card_length)
  finally show False using inv less by (simp add: sel_inv_def)
qed

lemma length_present_values: "length (present_values stats crit gs) \<le> length gs"
  by (induction gs) (auto simp: present_values_Cons present_values_def split: option.splits)

lemma length_positive_values: "length (positive_values stats crit gs) \<le> length gs"
  unfolding positive_values_def
  by (rule order_trans [OF length_filter_le length_present_values])

lemma highest_rmses_fold:
  assumes "1 \<le> mark_outlying_groups s"
    and "\<forall>g\<in>set (test_groups s). per_group_statistics s g \<noteq> None"
  shows "highest_rmses s =
     Inr (fold (replace_step (per_group_statistics s) (criterion s)) (test_groups s)
            (replicate (nat (min (mark_outlying_groups s) (int (length (test_groups s))))) nogroup))"
proof (cases "test_groups s = []")
  case True then show ?thesis by (simp add: highest_rmses_def)
next
  case False
  define n where "n = nat (min (mark_outlying_groups s) (int (length (test_groups s))))"
  from False have "0 < length (test_groups s)" by simp
  then have "0 < n" using assms(1) unfolding n_def by linarith
  then have "replicate n nogroup \<noteq> []" by (cases n) simp_all
  then have "replicate (nat (min (mark_outlying_groups s) (int (length (test_groups s))))) nogroup \<noteq> []"
    unfolding n_def .
  from mark_loop_fold [OF this assms(2)] show ?thesis by (simp add: highest_rmses_def)
qed

lemma min_slot_first:
  assumes "hs \<noteq> []"
  shows "min_slot hs < length hs" and "hs ! min_slot hs = Min (set hs)"
    and "j < min_slot hs \<Longrightarrow> hs ! j \<noteq> Min (set hs)"
proof -
  define m where "m = Min (set hs)"
  have "m \<in> set hs" using assms by (simp add: m_def)
  then obtain ys zs where hs: "hs = ys @ m # zs" and m: "m \<notin> set ys"
    by (auto dest: split_list_first)
  have "takeWhile (\<lambda>e. e \<noteq> m) (ys @ m # zs) = ys"
    using m by (subst takeWhile_append2) auto
  then have slot: "min_slot hs = length ys"
    unfolding min_slot_def m_def [symmetric] using hs by simp
  show "min_slot hs < length hs" unfolding slot using hs by simp
  show "hs ! min_slot hs = Min (set hs)" unfolding slot m_def [symmetric] using hs by simp
  show "hs ! j \<noteq> Min (set hs)" if "j < min_slot hs"
  proof -
    from that have "j < length ys" by (simp add: slot)
    then have "hs ! j \<in> set ys" using hs by (simp add: nth_append)
    then show ?thesis using m by (auto simp: m_def)
  qed
qed

lemma top_k_selection:
  fixes s :: sfg
  defines "k \<equiv> mark_outlying_groups s"
  defines "pos \<equiv> positive_values (per_group_statistics s) (criterion s) (test_groups s)"
  assumes k1: "1 \<le> mark_outlying_groups s" and dist: "distinct (test_groups s)"
    and stats: "\<forall>g\<in>set (test_groups s). per_group_statistics s g \<noteq> None"
  shows "\<exists>hs. highest_rmses s = Inr hs \<and>
     (int (length pos) \<le> k \<longrightarrow> set (non_sentinel hs) = set pos) \<and>
     (k < int (length pos) \<longrightarrow>
        length hs = nat k \<and> distinct hs \<and> set hs \<subseteq> set pos \<and>
        (\<forall>c\<in>set pos. c \<notin> set hs \<longrightarrow> (\<forall>e\<in>set hs. fst c \<le> fst e)))"
proof -
  define n where "n = nat (min k (int (length (test_groups s))))"
  define hs where "hs = fold (replace_step (per_group_statistics s) (criterion s)) (test_groups s)
    (replicate n nogroup)"
  have run: "highest_rmses s = Inr hs"
    using highest_rmses_fold [OF k1 stats] by (simp add: hs_def n_def k_def)
  have dpos: "distinct pos" unfolding pos_def positive_values_def
    by (intro distinct_filter distinct_present_values dist)
  have card_pos: "card (set pos) = length pos" using dpos by (rule distinct_card)
  have len_pos: "length pos \<le> length (test_groups s)"
    unfolding pos_def by (rule length_positive_values)
  have inv: "sel_inv n (set pos) hs"
  proof (cases "test_groups s = []")
    case True
    then show ?thesis using sel_inv_init [of 0]
      by (simp add: hs_def n_def pos_def positive_values_def present_values_def)
  next
    case False
    then have "0 < length (test_groups s)" by simp
    then have "0 < n" using k1 unfolding n_def k_def by linarith
    then have "replicate n nogroup \<noteq> []" by (cases n) simp_all
    from sel_inv_fold [OF sel_inv_init this dist, of "per_group_statistics s" "criterion s"]
    show ?thesis by (simp add: hs_def pos_def)
  qed
  have A: "set (non_sentinel hs) = set pos" if "int (length pos) \<le> k"
  proof -
    have "card (set pos) \<le> n" using that len_pos card_pos by (simp add: n_def)
    from sel_inv_all_in [OF inv _ this] have "set pos \<subseteq> set hs" by simp
    moreover have "nogroup \<notin> set pos" by (auto simp: pos_def positive_values_def nogroup_def)
    ultimately show ?thesis using inv by (auto simp: sel_inv_def non_sentinel_def)
  qed
  have B: "length hs = nat k \<and> distinct hs \<and> set hs \<subseteq> set pos \<and>
        (\<forall>c\<in>set pos. c \<notin> set hs \<longrightarrow> (\<forall>e\<in>set hs. fst c \<le> fst e))" if "k < int (length pos)"
  proof -
    have n_k: "n = nat k" using that len_pos by (simp add: n_def)
    have "n < card (set pos)" using that card_pos k1 by (simp add: n_k k_def)
    from sel_inv_full [OF inv _ this] have ng: "nogroup \<notin> set hs" by simp
    then have "filter (\<lambda>e. e \<noteq> nogroup) hs = hs" by (auto simp: filter_id_conv)
    then have "distinct hs" using inv by (simp add: sel_inv_def)
    moreover have "set hs \<subseteq> set pos" using inv ng by (auto simp: sel_inv_def)
    moreover have "length hs = nat k" using inv n_k by (simp add: sel_inv_def)
    ultimately show ?thesis using inv by (simp add: sel_inv_def)
  qed
  show ?thesis using run A B by blast
qed

lemmas example_simps =
  highest_rmses_def get_outlying_groups_def criterion_def nogroup_def py_min_def sfg0_def
  positive_values_def present_values_def group_value_def non_sentinel_def eval_nat_numeral

lemma abcd_run: "highest_rmses abcd_example = Inr [(3, ''C''), (5, ''B'')]"
  by (simp add: example_simps abcd_example_def)

lemma abcd_positive:
  "positive_values (per_group_statistics abcd_example) (criterion abcd_example)
     (test_groups abcd_example) = [(1, ''A''), (5, ''B''), (3, ''C''), (2, ''D'')]"
  by (simp add: example_simps abcd_example_def)

lemma tie_run: "highest_rmses tie_example = Inr [(2, ''B''), (3, ''C'')]"
  by (simp add: example_simps tie_example_def)

text \<open>
  What the selection achieves. A group enters the working list only when its value is
  strictly above the least slot, and the slots start at the sentinel value 0, so the
  groups that can be selected are those whose criterion statistic is present and strictly
  positive (\<open>positive_values\<close>). For a mark count \<open>k \<ge> 1\<close>, distinct group labels and
  statistics recorded for every test group, \<open>get_outlying_groups\<close> returns, and: if \<open>k\<close> is
  at least the number of such groups, the non-sentinel entries are exactly all of them; if
  \<open>k\<close> is smaller, the entries are \<open>k\<close> distinct such groups and no group left out has a
  larger value than a group kept, that is, they are \<open>k\<close> groups with the highest values.
\<close>

theorem outlying_groups_top_k:
  assumes "1 \<le> mark_outlying_groups s" and "distinct (test_groups s)"
    and "set (test_groups s) \<subseteq> dom (per_group_statistics s)"
  shows "\<exists>hs. highest_rmses s = Inr hs \<and>
     (int (length (positive_values (per_group_statistics s) (criterion s) (test_groups s)))
        \<le> mark_outlying_groups s \<longrightarrow>
      set (non_sentinel hs) =
        set (positive_values (per_group_statistics s) (criterion s) (test_groups s))) \<and>
     (mark_outlying_groups s
        < int (length (positive_values (per_group_statistics s) (criterion s) (test_groups s))) \<longrightarrow>
      length hs = nat (mark_outlying_groups s) \<and> distinct hs \<and>
      set hs \<subseteq> set (positive_values (per_group_statistics s) (criterion s) (test_groups s)) \<and>
      (\<forall>c\<in>set (positive_values (per_group_statistics s) (criterion s) (test_groups s)).
         c \<notin> set hs \<longrightarrow> (\<forall>e\<in>set hs. fst c \<le> fst e)))"
proof -
  have "\<forall>g\<in>set (test_groups s). per_group_statistics s g \<noteq> None"
    using assms(3) by auto
  from top_k_selection [OF assms(1,2) this] show ?thesis .
qed

text \<open>
  The scenario of the specification: groups A (1.0), B (5.0), C (3.0), D (2.0) and
  \<open>k = 2\<close> leave exactly (5.0, B) and (3.0, C) in the working list.
\<close>

theorem outlying_groups_top_k_witness:
  "1 \<le> mark_outlying_groups abcd_example \<and> distinct (test_groups abcd_example) \<and>
   set (test_groups abcd_example) \<subseteq> dom (per_group_statistics abcd_example) \<and>
   mark_outlying_groups abcd_example
     < int (length (positive_values (per_group_statistics abcd_example)
         (criterion abcd_example) (test_groups abcd_example))) \<and>
   highest_rmses abcd_example = Inr [(3, ''C''), (5, ''B'')] \<and>
   set (non_sentinel [(3, ''C''), (5, ''B'')]) = {(5, ''B''), (3, ''C'')} \<and>
   length [(3 :: real, ''C''), (5, ''B'')] = nat (mark_outlying_groups abcd_example) \<and>
   set [(3, ''C''), (5, ''B'')]
     \<subseteq> set (positive_values (per_group_statistics abcd_example)
         (criterion abcd_example) (test_groups abcd_example))"
proof -
  have h1: "1 \<le> mark_outlying_groups abcd_example"
    by (simp add: abcd_example_def sfg0_def)
  have h2: "distinct (test_groups abcd_example)"
    by (simp add: abcd_example_def sfg0_def)
  have h3: "set (test_groups abcd_example) \<subseteq> dom (per_group_statistics abcd_example)"
    by (simp add: abcd_example_def sfg0_def)
  have less: "mark_outlying_groups abcd_example
     < int (length (positive_values (per_group_statistics abcd_example)
         (criterion abcd_example) (test_groups abcd_example)))"
    unfolding abcd_positive by (simp add: abcd_example_def sfg0_def)
  from outlying_groups_top_k [OF h1 h2 h3] less abcd_run
  have "length [(3 :: real, ''C''), (5, ''B'')] = nat (mark_outlying_groups abcd_example) \<and>
    set [(3, ''C''), (5, ''B'')]
     \<subseteq> set (positive_values (per_group_statistics abcd_example)
         (criterion abcd_example) (test_groups abcd_example))"
    by auto
  moreover have "set (non_sentinel [(3, ''C''), (5, ''B'')]) = {(5, ''B''), (3, ''C'')}"
    by (auto simp: non_sentinel_def nogroup_def)
  ultimately show ?thesis using h1 h2 h3 less abcd_run by blast
qed

text \<open>
  Claim C2 does not hold on the code, which misses two cases. A group whose statistic
  is present with value 0 never displaces a sentinel, because the slots start at 0 and
  the comparison is strict: with the single group A (rmse 0.0) and a mark count of 2,
  above the number of groups, the working list keeps the sentinel and A is not marked,
  where the class documentation says that all groups are marked. With a mark count of
  0 and one group the call raises \<open>ValueError\<close> from \<open>min\<close> of the empty working list
  instead of returning no group.
\<close>

theorem zero_rmse_group_not_selected:
  "mark_outlying_groups zero_rmse_example = 2 \<and>
   test_groups zero_rmse_example = [''A''] \<and>
   present_values (per_group_statistics zero_rmse_example) (criterion zero_rmse_example)
     (test_groups zero_rmse_example) = [(0, ''A'')] \<and>
   highest_rmses zero_rmse_example = Inr [nogroup] \<and>
   get_outlying_groups zero_rmse_example =
     Inr (zero_rmse_example\<lparr>outlying_groups := [''nogroup'']\<rparr>) \<and>
   set (non_sentinel [nogroup]) \<noteq> set [(0, ''A'')] \<and>
   mark_outlying_groups mark_none_example = 0 \<and>
   get_outlying_groups mark_none_example = Inl ValueError"
  by (simp add: example_simps zero_rmse_example_def mark_none_example_def)

text \<open>
  Claim C3, as it holds on the code. For a mark count \<open>k \<ge> 1\<close> and statistics recorded
  for every test group, \<open>get_outlying_groups\<close> returns and its working list is the bounded
  min-replacement \<open>bounded_min_replacement\<close>: \<open>min k (number of groups)\<close> slots start as
  (0, nogroup) sentinels; each group whose criterion statistic is present and strictly
  above the value of the least slot replaces that slot, where the least slot is the first
  slot holding the least (value, label) pair, so that slots of equal value are ranked by
  label and only identical entries by slot order. The returned sequence has one label per
  slot, sentinels included: its length is \<open>min k (number of groups)\<close>.
\<close>

theorem get_outlying_groups_min_replacement:
  assumes "1 \<le> mark_outlying_groups s"
    and "set (test_groups s) \<subseteq> dom (per_group_statistics s)"
  shows "highest_rmses s =
       Inr (bounded_min_replacement (per_group_statistics s) (criterion s)
              (mark_outlying_groups s) (test_groups s)) \<and>
     get_outlying_groups s =
       Inr (s\<lparr>outlying_groups :=
              map snd (bounded_min_replacement (per_group_statistics s) (criterion s)
                (mark_outlying_groups s) (test_groups s))\<rparr>) \<and>
     length (bounded_min_replacement (per_group_statistics s) (criterion s)
              (mark_outlying_groups s) (test_groups s)) =
       nat (min (mark_outlying_groups s) (int (length (test_groups s))))"
proof -
  have "\<forall>g\<in>set (test_groups s). per_group_statistics s g \<noteq> None"
    using assms(2) by auto
  from highest_rmses_fold [OF assms(1) this]
  show ?thesis by (simp add: bounded_min_replacement_def get_outlying_groups_def)
qed

theorem get_outlying_groups_min_replacement_witness:
  "1 \<le> mark_outlying_groups tie_example \<and>
   set (test_groups tie_example) \<subseteq> dom (per_group_statistics tie_example) \<and>
   bounded_min_replacement (per_group_statistics tie_example) (criterion tie_example)
     (mark_outlying_groups tie_example) (test_groups tie_example) = [(2, ''B''), (3, ''C'')] \<and>
   get_outlying_groups tie_example = Inr (tie_example\<lparr>outlying_groups := [''B'', ''C'']\<rparr>)"
proof -
  have h1: "1 \<le> mark_outlying_groups tie_example"
    by (simp add: tie_example_def sfg0_def)
  have h2: "set (test_groups tie_example) \<subseteq> dom (per_group_statistics tie_example)"
    by (simp add: tie_example_def sfg0_def)
  from get_outlying_groups_min_replacement [OF h1 h2] tie_run
  have "bounded_min_replacement (per_group_statistics tie_example) (criterion tie_example)
     (mark_outlying_groups tie_example) (test_groups tie_example) = [(2, ''B''), (3, ''C'')]"
    by simp
  with get_outlying_groups_min_replacement [OF h1 h2] h1 h2 show ?thesis by simp
qed

text \<open>
  Claim C3 as the specification states it fails in three places. Ties: with groups B
  (2.0), A (2.0), C (3.0) in this order and \<open>k = 2\<close> the code displaces (2.0, A), the
  least pair, where the first minimum-valued slot in slot order holds (2.0, B). Length:
  with one group whose filtered statistic is absent and \<open>k = 1\<close> the returned sequence
  has one element, not \<open>min k 0 = 0\<close>. Mark count 0: with one group the call raises
  \<open>ValueError\<close> from \<open>min\<close> of an empty list instead of returning an empty sequence.
\<close>

theorem spec_selection_differs:
  "highest_rmses tie_example = Inr [(2, ''B''), (3, ''C'')] \<and>
   spec_select_outliers (per_group_statistics tie_example) (criterion tie_example)
     (mark_outlying_groups tie_example) (test_groups tie_example) = [(3, ''C''), (2, ''A'')] \<and>
   get_outlying_groups filtered_out_example =
     Inr (filtered_out_example\<lparr>outlying_groups := [''nogroup'']\<rparr>) \<and>
   present_values (per_group_statistics filtered_out_example) (criterion filtered_out_example)
     (test_groups filtered_out_example) = [] \<and>
   get_outlying_groups mark_none_example = Inl ValueError"
  by (simp add: example_simps spec_select_outliers_def spec_replace_step_def spec_min_slot_def
      spec_min_value_def tie_example_def filtered_out_example_def mark_none_example_def)

section \<open>Helper facts: ExtrapolateFull and the per-group statistics\<close>

lemma fit_arrays_filter [simp]: "fit_arrays (a\<lparr>arg_plot_filter_out := p\<rparr>) = fit_arrays a"
  by (simp add: fit_arrays_def match_groups_def fit_groups_def topredict_groups_def
      split: sum.splits)

lemma supported_unsupported_filter [simp]:
  "supported_unsupported (a\<lparr>arg_plot_filter_out := p\<rparr>) = supported_unsupported a"
  by (simp add: supported_unsupported_def match_groups_def fit_groups_def topredict_groups_def)

lemma execute_filter: "execute m (a\<lparr>arg_plot_filter_out := p\<rparr>) = execute m a"
  by (simp add: execute_def Let_def split: sum.splits prod.splits option.splits)

lemma execute_ignores_filter:
  "execute m (a\<lparr>arg_plot_filter_out := p\<rparr>) = execute m (a\<lparr>arg_plot_filter_out := q\<rparr>)"
  by (simp add: execute_filter)

lemma set_intersect1d [simp]: "set (intersect1d xs ys) = set xs \<inter> set ys"
  by (auto simp: intersect1d_def)

lemma set_setdiff1d [simp]: "set (setdiff1d xs ys) = set xs - set ys"
  by (auto simp: setdiff1d_def)

lemma lookup_entry:
  "distinct (map fst d) \<Longrightarrow> e \<in> set d \<Longrightarrow> lookup d (fst e) = Inr (snd e)"
  by (cases e) (simp add: lookup_def)

lemma split_index_entries:
  assumes "distinct (map fst d)" "set es \<subseteq> set d"
  shows "split_index d m (map fst es) (s, u) =
     Inr (s @ concat (map rows (filter (\<lambda>e. fst e \<in> set m) es)),
          u @ concat (map rows (filter (\<lambda>e. fst e \<notin> set m) es)))"
  using assms(2)
proof (induction es arbitrary: s u)
  case Nil then show ?case by simp
next
  case (Cons e es)
  then have "lookup d (fst e) = Inr (snd e)" using lookup_entry [OF assms(1)] by simp
  then show ?case using Cons by (simp add: rows_def)
qed

lemma concat_filter_disjoint:
  "distinct (concat (map f xs)) \<Longrightarrow>
   set (concat (map f (filter P xs))) \<inter> set (concat (map f (filter (\<lambda>x. \<not> P x) xs))) = {}"
  by (induction xs) auto

lemma concat_filter_union:
  "set (concat (map f (filter P xs))) \<union> set (concat (map f (filter (\<lambda>x. \<not> P x) xs)))
     = set (concat (map f xs))"
  by (induction xs) auto

lemma extend_fit_index_entries:
  assumes "set gs \<subseteq> fst ` set d"
  shows "extend_fit_index d gs acc =
     Inr (acc @ concat (map (\<lambda>g. test_index (the (map_of d g))) gs))"
  using assms
proof (induction gs arbitrary: acc)
  case Nil then show ?case by simp
next
  case (Cons g gs)
  then obtain v where "map_of d g = Some v"
    by (metis list.set_intros(1) map_of_eq_None_iff not_Some_eq subsetD)
  then show ?case using Cons by (simp add: lookup_def)
qed

lemma take_rows_Inr:
  "list_all (\<lambda>i. i < length a) index \<Longrightarrow> take_rows a index = Inr (map (\<lambda>i. a ! i) index)"
  by (simp add: take_rows_def)

lemma rms_on_empty: "rms_on ydata Yp [] = ([MeanSquaredError [] []], Inl ValueError)"
  by (simp add: rms_on_def take_rows_def mean_squared_error_def)

lemma squares_on_rows:
  fixes y Yp :: vector
  shows "sum_list (map (\<lambda>(t, p). (t - p)\<^sup>2) (zip (map (\<lambda>i. y ! i) index) (map (\<lambda>i. Yp ! i) index)))
     = (\<Sum>i\<leftarrow>index. (Yp ! i - y ! i)\<^sup>2)"
  by (induction index) (simp_all add: power2_commute)

lemma squares_overall:
  fixes y Yp :: vector
  assumes "length Yp = length y"
  shows "sum_list (map (\<lambda>(t, p). (t - p)\<^sup>2) (zip y Yp)) = (\<Sum>i\<leftarrow>[0..<length y]. (Yp ! i - y ! i)\<^sup>2)"
proof -
  have "zip y Yp = zip (map (\<lambda>i. y ! i) [0..<length y]) (map (\<lambda>i. Yp ! i) [0..<length y])"
    using assms by (metis map_nth)
  then show ?thesis using squares_on_rows [where y = y and Yp = Yp and index = "[0..<length y]"] by simp
qed

lemma rms_on_rows:
  fixes y Yp :: vector
  assumes "length Yp = length y" "index \<noteq> []" "list_all (\<lambda>i. i < length y) index"
  shows "rms_on y Yp index =
     ([MeanSquaredError (map (\<lambda>i. y ! i) index) (map (\<lambda>i. Yp ! i) index)],
      Inr (sqrt ((\<Sum>i\<leftarrow>index. (Yp ! i - y ! i)\<^sup>2) / real (length index))))"
  using assms
  by (simp add: rms_on_def take_rows_Inr mean_squared_error_def squares_on_rows)

lemma group_rmse_rows:
  assumes "testing_target_data s = Some target"
    and "length (testing_target_prediction s) = length target"
    and "index \<noteq> []" and "list_all (\<lambda>i. i < length target) index"
  shows "group_rmse s index = Inr (rmse_rows target (testing_target_prediction s) index)"
proof -
  have "(\<Sum>i\<leftarrow>index. (target ! i - testing_target_prediction s ! i)\<^sup>2)
      = (\<Sum>i\<leftarrow>index. (testing_target_prediction s ! i - target ! i)\<^sup>2)"
    by (simp add: power2_commute)
  then show ?thesis using assms
    by (simp add: group_rmse_def take_rows_Inr mean_squared_error_def rmse_rows_def
        squares_on_rows [where y = "testing_target_prediction s" and Yp = target])
qed

lemma lookup_group_rows:
  assumes "g \<in> fst ` set (test_group_indices s)"
  shows "\<exists>entry. lookup (test_group_indices s) g = Inr entry \<and> test_index entry = group_rows s g"
proof -
  from assms obtain entry where "map_of (test_group_indices s) g = Some entry"
    by (metis map_of_eq_None_iff not_Some_eq)
  then show ?thesis by (simp add: lookup_def group_rows_def)
qed

lemma per_group_loop_fold:
  assumes "testing_target_data s = Some target"
    and "length (testing_target_prediction s) = length target"
    and "set gs \<subseteq> fst ` set (test_group_indices s)"
    and "list_all (\<lambda>g. group_rows s g \<noteq> [] \<and> list_all (\<lambda>i. i < length target) (group_rows s g)) gs"
  shows "per_group_loop s gs stats =
     Inr (fold (\<lambda>g m. m(g \<mapsto> expected_group_statistics s target g)) gs stats)"
  using assms(3,4)
proof (induction gs arbitrary: stats)
  case Nil then show ?case by simp
next
  case (Cons g gs)
  from Cons.prems obtain entry where entry: "lookup (test_group_indices s) g = Inr entry"
    "test_index entry = group_rows s g" using lookup_group_rows [of g s] by auto
  have rows: "group_rows s g \<noteq> []" "list_all (\<lambda>i. i < length target) (group_rows s g)"
    using Cons.prems(2) by simp_all
  have full: "group_rmse s (group_rows s g) = Inr (rmse_rows target (testing_target_prediction s) (group_rows s g))"
    by (rule group_rmse_rows [OF assms(1,2) rows])
  let ?shown = "intersect1d (group_rows s g) (plotting_index s)"
  have shown_range: "list_all (\<lambda>i. i < length target) ?shown"
    using rows(2) by (auto simp: list_all_iff)
  have shown: "?shown \<noteq> [] \<Longrightarrow>
      group_rmse s ?shown = Inr (rmse_rows target (testing_target_prediction s) ?shown)"
    by (rule group_rmse_rows [OF assms(1,2) _ shown_range])
  have rest: "set gs \<subseteq> fst ` set (test_group_indices s)"
    "list_all (\<lambda>g. group_rows s g \<noteq> [] \<and> list_all (\<lambda>i. i < length target) (group_rows s g)) gs"
    using Cons.prems by simp_all
  note IH = Cons.IH [OF rest]
  have step: "per_group_loop s (g # gs) stats =
      per_group_loop s gs (stats(g \<mapsto> expected_group_statistics s target g))"
  proof (cases "plot_filter_out s \<noteq> None \<and> ?shown \<noteq> []")
    case True
    then have E: "expected_group_statistics s target g =
        [''rmse'' \<mapsto> rmse_rows target (testing_target_prediction s) (group_rows s g),
         ''rmse_plot_filter_out'' \<mapsto> rmse_rows target (testing_target_prediction s) ?shown]"
      by (simp add: expected_group_statistics_def Let_def)
    show ?thesis unfolding E using True
      by (simp add: entry full shown set_statistic_def Let_def)
  next
    case False
    then have E: "expected_group_statistics s target g =
        [''rmse'' \<mapsto> rmse_rows target (testing_target_prediction s) (group_rows s g)]"
      by (auto simp: expected_group_statistics_def Let_def)
    show ?thesis unfolding E using False
      by (auto simp: entry full set_statistic_def Let_def)
  qed
  show ?case unfolding step IH by (simp only: fold.simps o_apply)
qed

lemma fold_upd_lookup:
  "(fold (\<lambda>g m. m(g \<mapsto> F g)) gs m0) g = (if g \<in> set gs then Some (F g) else m0 g)"
  by (induction gs arbitrary: m0) auto

lemma get_per_group_statistics_result:
  assumes "well_formed_groups s target" "g \<in> set (test_groups s)"
  shows "\<exists>s'. get_per_group_statistics s = Inr s' \<and>
           per_group_statistics s' g = Some (expected_group_statistics s target g)"
proof -
  from assms(1) have "per_group_loop s (test_groups s) (per_group_statistics s) =
     Inr (fold (\<lambda>g m. m(g \<mapsto> expected_group_statistics s target g)) (test_groups s) (per_group_statistics s))"
    unfolding well_formed_groups_def by (intro per_group_loop_fold) simp_all
  then show ?thesis using assms(2)
    by (simp add: get_per_group_statistics_def fold_upd_lookup)
qed

section \<open>Claims on ExtrapolateFull.execute\<close>

lemmas ef_simps =
  execute_def fit_arrays_def supported_unsupported_def match_groups_def fit_groups_def
  topredict_groups_def keys_def lookup_def intersect1d_def take_rows_def rms_statistics_def
  rms_on_def mean_squared_error_def plot_arguments_def mean_model_def rows_def Let_def

lemma map_of_entry:
  "distinct (map fst d) \<Longrightarrow> e \<in> set d \<Longrightarrow> map_of d (fst e) = Some (snd e)"
  by (cases e) simp

lemma rows_disjoint:
  assumes "distinct (concat (map rows d))" "e \<in> set d" "e' \<in> set d" "fst e \<noteq> fst e'"
  shows "set (rows e) \<inter> set (rows e') = {}"
  using assms by (induction d) auto

lemma in_concat_rows:
  "e \<in> set d \<Longrightarrow> P e \<Longrightarrow> i \<in> set (rows e) \<Longrightarrow> i \<in> set (concat (map rows (filter P d)))"
  by (induction d) auto

lemma rows_distinct:
  "distinct (concat (map rows d)) \<Longrightarrow> e \<in> set d \<Longrightarrow> distinct (rows e)"
  by (induction d) auto

lemma distinct_concat_groups:
  assumes "distinct gs"
    and "\<forall>g\<in>set gs. distinct (f g)"
    and "\<forall>g\<in>set gs. \<forall>h\<in>set gs. g \<noteq> h \<longrightarrow> set (f g) \<inter> set (f h) = {}"
  shows "distinct (concat (map f gs))"
  using assms by (induction gs) auto

lemma metric_calls_rms_on: "filter is_model_call (fst (rms_on y p index)) = []"
  by (simp add: rms_on_def split: sum.splits)

lemma metric_calls_rms_statistics:
  "filter is_model_call (fst (rms_statistics y p supported unsupported)) = []"
proof -
  have "filter is_model_call (fst (rms_on y p supported)) = []"
    "filter is_model_call (fst (rms_on y p unsupported)) = []"
    by (rule metric_calls_rms_on)+
  then show ?thesis
    by (cases "rms_on y p supported"; cases "rms_on y p unsupported")
      (auto simp: rms_statistics_def Let_def split: sum.splits)
qed

lemma execute_trace:
  assumes "fit_arrays a = Inr (fit_Xdata, fit_ydata)"
    and "supported_unsupported a = Inr (supported, unsupported)"
  shows "fst (execute m a) =
     [Fit fit_Xdata fit_ydata, Predict (topredict_Xdata a)]
     @ (case std_Xdata a of None \<Rightarrow> [] | Some std_X \<Rightarrow> [Predict std_X])
     @ fst (rms_statistics (topredict_ydata a)
              (predict m (fit m fit_Xdata fit_ydata) (topredict_Xdata a)) supported unsupported)"
  using assms by (simp add: execute_def Let_def split: prod.splits sum.splits)

text \<open>
  Claim C10: \<open>plot_filter_out\<close> is never read by \<open>execute\<close>. Two runs that differ only
  in it make the same calls on the model and the metric and end with the same outcome:
  the same fitted state, predictions and three RMSE values, or the same exception.
\<close>

theorem plot_filter_out_has_no_effect:
  "execute m (a\<lparr>arg_plot_filter_out := p\<rparr>) = execute m (a\<lparr>arg_plot_filter_out := q\<rparr>)"
  by (simp add: execute_filter)

theorem plot_filter_out_has_no_effect_witness:
  "execute mean_model (xy_yz_example\<lparr>arg_plot_filter_out := ''temperature,<,3000''\<rparr>)
     = execute mean_model (xy_yz_example\<lparr>arg_plot_filter_out := ''''\<rparr>)"
  by (rule plot_filter_out_has_no_effect)

text \<open>
  Claim C4: the matched groups are the intersection of the training and the evaluation
  groups. When the evaluation group index dictionary has unique keys and no row number
  occurs twice in it, the supported rows are the rows of the evaluation groups that occur
  in training, the unsupported rows those of the other evaluation groups, in dictionary
  order; the two lists are disjoint and together hold every row number of the
  dictionary.
\<close>

theorem supported_unsupported_partition:
  assumes "distinct (keys (topredict_indices a))"
    and "distinct (concat (map rows (topredict_indices a)))"
  shows "set (match_groups a) = set (fit_groups a) \<inter> set (topredict_groups a) \<and>
     (\<exists>supported unsupported.
        supported_unsupported a = Inr (supported, unsupported) \<and>
        supported =
          concat (map rows (filter (\<lambda>e. fst e \<in> set (fit_groups a)) (topredict_indices a))) \<and>
        unsupported =
          concat (map rows (filter (\<lambda>e. fst e \<notin> set (fit_groups a)) (topredict_indices a))) \<and>
        set supported \<inter> set unsupported = {} \<and>
        set supported \<union> set unsupported = set (concat (map rows (topredict_indices a))))"
proof -
  let ?d = "topredict_indices a"
  have d: "distinct (map fst ?d)" using assms(1) by (simp add: keys_def)
  have in_m: "\<And>e. e \<in> set ?d \<Longrightarrow> fst e \<in> set (match_groups a) \<longleftrightarrow> fst e \<in> set (fit_groups a)"
    by (auto simp: match_groups_def topredict_groups_def keys_def)
  have f1: "filter (\<lambda>e. fst e \<in> set (match_groups a)) ?d = filter (\<lambda>e. fst e \<in> set (fit_groups a)) ?d"
    by (rule filter_cong) (simp_all add: in_m)
  have f2: "filter (\<lambda>e. fst e \<notin> set (match_groups a)) ?d = filter (\<lambda>e. fst e \<notin> set (fit_groups a)) ?d"
    by (rule filter_cong) (simp_all add: in_m)
  have run: "supported_unsupported a =
      Inr (concat (map rows (filter (\<lambda>e. fst e \<in> set (fit_groups a)) ?d)),
           concat (map rows (filter (\<lambda>e. fst e \<notin> set (fit_groups a)) ?d)))"
    using split_index_entries [OF d subset_refl, of "match_groups a" "[]" "[]"]
    by (simp add: supported_unsupported_def topredict_groups_def keys_def f1 f2)
  have disj: "set (concat (map rows (filter (\<lambda>e. fst e \<in> set (fit_groups a)) ?d)))
      \<inter> set (concat (map rows (filter (\<lambda>e. fst e \<notin> set (fit_groups a)) ?d))) = {}"
    by (rule concat_filter_disjoint [OF assms(2)])
  have un: "set (concat (map rows (filter (\<lambda>e. fst e \<in> set (fit_groups a)) ?d)))
      \<union> set (concat (map rows (filter (\<lambda>e. fst e \<notin> set (fit_groups a)) ?d)))
      = set (concat (map rows ?d))"
    by (rule concat_filter_union)
  have "set (match_groups a) = set (fit_groups a) \<inter> set (topredict_groups a)"
    by (simp add: match_groups_def)
  then show ?thesis using run disj un by blast
qed

text \<open>
  The scenario of the specification: train groups X and Y, evaluation groups Y and Z.
  The matched groups are Y alone, the rows labelled Y (0 and 2) are supported and the
  row labelled Z (1) is unsupported.
\<close>

theorem supported_unsupported_partition_witness:
  "distinct (keys (topredict_indices xy_yz_example)) \<and>
   distinct (concat (map rows (topredict_indices xy_yz_example))) \<and>
   fit_groups xy_yz_example = [''X'', ''Y''] \<and>
   topredict_groups xy_yz_example = [''Y'', ''Z''] \<and>
   match_groups xy_yz_example = [''Y''] \<and>
   set (match_groups xy_yz_example) = {''Y''} \<and>
   supported_unsupported xy_yz_example = Inr ([0, 2], [1])"
proof -
  have h1: "distinct (keys (topredict_indices xy_yz_example))"
    by (simp add: xy_yz_example_def keys_def)
  have h2: "distinct (concat (map rows (topredict_indices xy_yz_example)))"
    by (simp add: xy_yz_example_def rows_def)
  have "set (match_groups xy_yz_example) = {''Y''}"
    using supported_unsupported_partition [OF h1 h2]
    by (auto simp: fit_groups_def topredict_groups_def keys_def xy_yz_example_def)
  moreover have "supported_unsupported xy_yz_example = Inr ([0, 2], [1])"
    using supported_unsupported_partition [OF h1 h2]
    by (auto simp: fit_groups_def keys_def xy_yz_example_def rows_def)
  moreover have "match_groups xy_yz_example = [''Y'']"
    by (simp add: ef_simps xy_yz_example_def)
  ultimately show ?thesis using h1 h2
    by (simp add: fit_groups_def topredict_groups_def keys_def xy_yz_example_def)
qed

text \<open>
  \<open>ExtrapolateFull.execute\<close>, lines 77 to 82: with \<open>fit_only_on_matched_groups = 1\<close>, a
  training group index dictionary with unique keys in which no row number occurs twice,
  and row numbers within the training arrays, the model is fitted on the rows
  \<open>fit_index\<close> of the training arrays, each row once, where \<open>fit_index\<close> holds exactly
  the rows of the training groups that also occur in the evaluation data and no row of
  any other training group.
\<close>

lemma fit_arrays_matched_rows:
  assumes "arg_fit_only_on_matched_groups a = 1"
    and "distinct (keys (fit_indices a))"
    and "distinct (concat (map rows (fit_indices a)))"
    and "list_all (\<lambda>i. i < length (data_Xdata a) \<and> i < length (data_ydata a))
           (concat (map rows (fit_indices a)))"
  shows "\<exists>fit_index.
     fit_arrays a =
       Inr (map (\<lambda>i. data_Xdata a ! i) fit_index, map (\<lambda>i. data_ydata a ! i) fit_index) \<and>
     distinct fit_index \<and>
     set fit_index =
       set (concat (map rows
         (filter (\<lambda>e. fst e \<in> set (topredict_groups a)) (fit_indices a)))) \<and>
     set fit_index \<inter>
       set (concat (map rows
         (filter (\<lambda>e. fst e \<notin> set (topredict_groups a)) (fit_indices a)))) = {}"
proof -
  let ?d = "fit_indices a"
  let ?f = "\<lambda>g. test_index (the (map_of ?d g))"
  define fit_index where "fit_index = concat (map ?f (match_groups a))"
  have d: "distinct (map fst ?d)" using assms(2) by (simp add: keys_def)
  have m_set: "set (match_groups a) = fst ` set ?d \<inter> set (topredict_groups a)"
    by (simp add: match_groups_def fit_groups_def keys_def)
  have m_dist: "distinct (match_groups a)"
    by (simp add: match_groups_def intersect1d_def)
  have entry: "\<exists>e\<in>set ?d. fst e = g \<and> ?f g = rows e" if "g \<in> set (match_groups a)" for g
  proof -
    from that m_set obtain e where e: "e \<in> set ?d" "fst e = g" by auto
    then have "?f g = rows e" using map_of_entry [OF d e(1)] by (simp add: rows_def)
    then show ?thesis using e by blast
  qed
  have f_rows: "?f (fst e) = rows e" if "e \<in> set ?d" for e
    using map_of_entry [OF d that] by (simp add: rows_def)
  have set_eq: "set fit_index =
      set (concat (map rows (filter (\<lambda>e. fst e \<in> set (topredict_groups a)) ?d)))"
  proof (intro equalityI subsetI)
    fix i assume "i \<in> set fit_index"
    then obtain g where g: "g \<in> set (match_groups a)" "i \<in> set (?f g)"
      by (auto simp: fit_index_def)
    from entry [OF g(1)] obtain e where e: "e \<in> set ?d" "fst e = g" "?f g = rows e" by blast
    have "fst e \<in> set (topredict_groups a)" using g(1) m_set e(2) by auto
    moreover have "i \<in> set (rows e)" using g(2) e(3) by simp
    ultimately show "i \<in> set (concat (map rows (filter (\<lambda>e. fst e \<in> set (topredict_groups a)) ?d)))"
      using e(1) by (intro in_concat_rows)
  next
    fix i assume "i \<in> set (concat (map rows (filter (\<lambda>e. fst e \<in> set (topredict_groups a)) ?d)))"
    then obtain e where e: "e \<in> set ?d" "fst e \<in> set (topredict_groups a)" "i \<in> set (rows e)"
      by auto
    then have "fst e \<in> set (match_groups a)" using m_set by auto
    moreover have "i \<in> set (?f (fst e))" using f_rows [OF e(1)] e(3) by simp
    ultimately show "i \<in> set fit_index" unfolding fit_index_def by auto
  qed
  have sub: "set fit_index \<subseteq> set (concat (map rows ?d))" unfolding set_eq by auto
  then have range: "list_all (\<lambda>i. i < length (data_Xdata a)) fit_index"
    "list_all (\<lambda>i. i < length (data_ydata a)) fit_index"
    using assms(4) by (auto simp: list_all_iff)
  have "set (match_groups a) \<subseteq> fst ` set ?d" using m_set by simp
  from extend_fit_index_entries [OF this, of "[]"]
  have run: "fit_arrays a =
      Inr (map (\<lambda>i. data_Xdata a ! i) fit_index, map (\<lambda>i. data_ydata a ! i) fit_index)"
    using assms(1) range by (simp add: fit_arrays_def fit_index_def take_rows_Inr)
  have dist: "distinct fit_index"
    unfolding fit_index_def
  proof (rule distinct_concat_groups [OF m_dist]; intro ballI impI)
    fix g assume "g \<in> set (match_groups a)"
    from entry [OF this] show "distinct (?f g)"
      using rows_distinct [OF assms(3)] by auto
  next
    fix g h assume gh: "g \<in> set (match_groups a)" "h \<in> set (match_groups a)" "g \<noteq> h"
    from entry [OF gh(1)] obtain e where e: "e \<in> set ?d" "fst e = g" "?f g = rows e" by blast
    from entry [OF gh(2)] obtain e' where e': "e' \<in> set ?d" "fst e' = h" "?f h = rows e'" by blast
    have "set (rows e) \<inter> set (rows e') = {}"
      using rows_disjoint [OF assms(3) e(1) e'(1)] e(2) e'(2) gh(3) by simp
    then show "set (?f g) \<inter> set (?f h) = {}" using e(3) e'(3) by simp
  qed
  have disj: "set fit_index \<inter>
      set (concat (map rows (filter (\<lambda>e. fst e \<notin> set (topredict_groups a)) ?d))) = {}"
    unfolding set_eq by (rule concat_filter_disjoint [OF assms(3)])
  show ?thesis using run dist set_eq disj by blast
qed

lemma no_model_call_no_fit:
  "filter is_model_call xs = [] \<Longrightarrow> filter is_fit xs = [] \<and> filter is_predict xs = []"
proof (induction xs)
  case Nil then show ?case by simp
next
  case (Cons e xs) then show ?case by (cases e) (auto split: if_splits)
qed

text \<open>
  Claim C6: in every run of \<open>execute\<close> that gets past the index bookkeeping, the first
  call is the one \<open>fit\<close>, on the (possibly filtered) training arrays, and the second is
  \<open>predict\<close> on the whole evaluation feature matrix. No other \<open>fit\<close> follows; the only
  other \<open>predict\<close> is the one on the standard-conditions matrix, when that dataset is
  given, also on the whole matrix. After the first call of the metric no call reaches
  the model.
\<close>

theorem fit_once_then_predict_before_statistics:
  assumes "fit_arrays a = Inr (fit_Xdata, fit_ydata)"
    and "supported_unsupported a = Inr (supported, unsupported)"
  shows "take 2 (fst (execute m a)) = [Fit fit_Xdata fit_ydata, Predict (topredict_Xdata a)] \<and>
     filter is_fit (fst (execute m a)) = [Fit fit_Xdata fit_ydata] \<and>
     filter is_predict (fst (execute m a)) =
       Predict (topredict_Xdata a)
       # (case std_Xdata a of None \<Rightarrow> [] | Some std_X \<Rightarrow> [Predict std_X]) \<and>
     filter is_model_call (dropWhile is_model_call (fst (execute m a))) = []"
proof -
  define metric where "metric = fst (rms_statistics (topredict_ydata a)
     (predict m (fit m fit_Xdata fit_ydata) (topredict_Xdata a)) supported unsupported)"
  define calls where "calls = [Fit fit_Xdata fit_ydata, Predict (topredict_Xdata a)]
     @ (case std_Xdata a of None \<Rightarrow> [] | Some std_X \<Rightarrow> [Predict std_X])"
  have tr: "fst (execute m a) = calls @ metric"
    using execute_trace [OF assms, of m] by (simp add: calls_def metric_def)
  have metric: "filter is_model_call metric = []"
    unfolding metric_def by (rule metric_calls_rms_statistics)
  then have none: "filter is_fit metric = []" "filter is_predict metric = []"
    using no_model_call_no_fit by blast+
  have all_calls: "\<And>e. e \<in> set calls \<Longrightarrow> is_model_call e"
    by (auto simp: calls_def split: option.splits)
  have "dropWhile is_model_call (calls @ metric) = dropWhile is_model_call metric"
    by (rule dropWhile_append2) (rule all_calls)
  moreover have "set (dropWhile is_model_call metric) \<subseteq> set metric"
    by (auto dest: set_dropWhileD)
  ultimately have after: "filter is_model_call (dropWhile is_model_call (calls @ metric)) = []"
    using metric by (auto simp: filter_empty_conv)
  have "take 2 (calls @ metric) = [Fit fit_Xdata fit_ydata, Predict (topredict_Xdata a)]"
    by (simp add: calls_def)
  moreover have "filter is_fit (calls @ metric) = [Fit fit_Xdata fit_ydata]"
    using none by (simp add: calls_def split: option.splits)
  moreover have "filter is_predict (calls @ metric) =
       Predict (topredict_Xdata a)
       # (case std_Xdata a of None \<Rightarrow> [] | Some std_X \<Rightarrow> [Predict std_X])"
    using none by (simp add: calls_def split: option.splits)
  ultimately show ?thesis unfolding tr using after by blast
qed

text \<open>
  A run with a standard-conditions dataset: one fit on the matched training rows, one
  prediction for the three evaluation rows at once, one for the standard conditions,
  and only then the three calls of the metric.
\<close>

theorem fit_once_then_predict_before_statistics_witness:
  "fit_arrays xy_yz_example = Inr ([[2], [3]], [20, 30]) \<and>
   supported_unsupported xy_yz_example = Inr ([0, 2], [1]) \<and>
   fst (execute mean_model xy_yz_example) =
     [Fit [[2], [3]] [20, 30], Predict [[4], [5], [6]], Predict [[7]],
      MeanSquaredError [40, 50, 60] [25, 25, 25], MeanSquaredError [40, 60] [25, 25],
      MeanSquaredError [50] [25]] \<and>
   filter is_fit (fst (execute mean_model xy_yz_example)) = [Fit [[2], [3]] [20, 30]]"
proof -
  have h1: "fit_arrays xy_yz_example = Inr ([[2], [3]], [20, 30])"
    by (simp add: ef_simps xy_yz_example_def)
  have h2: "supported_unsupported xy_yz_example = Inr ([0, 2], [1])"
    by (simp add: ef_simps xy_yz_example_def)
  have "fst (execute mean_model xy_yz_example) =
     [Fit [[2], [3]] [20, 30], Predict [[4], [5], [6]], Predict [[7]],
      MeanSquaredError [40, 50, 60] [25, 25, 25], MeanSquaredError [40, 60] [25, 25],
      MeanSquaredError [50] [25]]"
    by (simp add: ef_simps xy_yz_example_def)
  then show ?thesis
    using h1 h2 fit_once_then_predict_before_statistics [OF h1 h2, of mean_model] by simp
qed

text \<open>
  Claim C1 does not hold on the code: the statistics of lines 100 to 104 pass the
  selected rows to \<open>mean_squared_error\<close> without testing for an empty selection, and the
  metric rejects an empty array. An empty row list raises \<open>ValueError\<close>; in particular
  a run whose evaluation groups all occur in the training data has no unsupported row
  and ends with that exception after the overall and the supported statistic.
\<close>

theorem rmse_of_empty_rows_raises:
  "snd (rms_on y p []) = Inl ValueError \<and>
   supported_unsupported all_supported_example = Inr ([0, 1], []) \<and>
   execute mean_model all_supported_example =
     ([Fit [[1], [2], [3]] [10, 20, 30], Predict [[4], [5]],
       MeanSquaredError [40, 50] [20, 20], MeanSquaredError [40, 50] [20, 20],
       MeanSquaredError [] []],
      Inl ValueError)"
  by (simp add: ef_simps all_supported_example_def)

section \<open>Helper facts: the group index and the workflow order\<close>

text \<open>
  The index dictionary built from a label column has unique keys and lists every row
  number exactly once, and after \<open>set_group_info\<close> the test groups are well formed; after
  \<open>get_per_group_statistics\<close> every test group has its record.
\<close>

lemma set_first_occurrences [simp]: "set (first_occurrences labels) = set labels"
  by (induction labels) auto

lemma distinct_first_occurrences [simp]: "distinct (first_occurrences labels)"
  by (induction labels) auto

lemma keys_get_logo_indices [simp]: "keys (get_logo_indices labels) = first_occurrences labels"
  by (simp add: keys_def get_logo_indices_def comp_def)

lemma rows_get_logo_indices:
  "map rows (get_logo_indices labels) =
     map (\<lambda>g. filter (\<lambda>i. labels ! i = g) [0..<length labels]) (first_occurrences labels)"
  by (simp add: get_logo_indices_def rows_def comp_def)

lemma map_of_get_logo_indices:
  assumes "g \<in> set labels"
  shows "map_of (get_logo_indices labels) g =
     Some \<lparr>test_index = filter (\<lambda>i. labels ! i = g) [0..<length labels]\<rparr>"
proof -
  have "map_of (map (\<lambda>g. (g, f g)) gs) g = Some (f g)" if "g \<in> set gs" for gs and f :: "group \<Rightarrow> logo_entry"
    using that by (induction gs) auto
  then show ?thesis using assms by (simp add: get_logo_indices_def)
qed

lemma get_logo_indices_partition:
  "distinct (keys (get_logo_indices labels))"
  "distinct (concat (map rows (get_logo_indices labels)))"
  "set (concat (map rows (get_logo_indices labels))) = {0..<length labels}"
proof -
  show "distinct (keys (get_logo_indices labels))" by simp
  show "distinct (concat (map rows (get_logo_indices labels)))"
    unfolding rows_get_logo_indices
    by (rule distinct_concat_groups) auto
  show "set (concat (map rows (get_logo_indices labels))) = {0..<length labels}"
    unfolding rows_get_logo_indices by auto
qed

lemma well_formed_after_set_group_info:
  assumes "testing_target_data s = Some target"
    and "length (testing_target_prediction s) = length target"
    and "length (get_data (testing_dataset s) (grouping_feature s)) = length target"
  shows "well_formed_groups (set_group_info s) target"
proof -
  define labels where "labels = get_data (testing_dataset s) (grouping_feature s)"
  have rows_g: "group_rows (set_group_info s) g = filter (\<lambda>i. labels ! i = g) [0..<length labels]"
    if "g \<in> set labels" for g
    using map_of_get_logo_indices [OF that]
    by (simp add: group_rows_def set_group_info_def Let_def labels_def)
  have ne: "filter (\<lambda>i. labels ! i = g) [0..<length labels] \<noteq> []" if "g \<in> set labels" for g
  proof -
    from that obtain i where "i < length labels" "labels ! i = g" by (auto simp: in_set_conv_nth)
    then show ?thesis by (auto simp: filter_empty_conv)
  qed
  have "list_all (\<lambda>g. group_rows (set_group_info s) g \<noteq> [] \<and>
      list_all (\<lambda>i. i < length target) (group_rows (set_group_info s) g)) (first_occurrences labels)"
    using ne rows_g assms(3) by (auto simp: list_all_iff labels_def)
  moreover have "test_groups (set_group_info s) = first_occurrences labels"
    "test_group_indices (set_group_info s) = get_logo_indices labels"
    "testing_target_data (set_group_info s) = Some target"
    "testing_target_prediction (set_group_info s) = testing_target_prediction s"
    using assms(1) by (simp_all add: set_group_info_def Let_def labels_def)
  moreover have "set (first_occurrences labels) \<subseteq> fst ` set (get_logo_indices labels)"
    using keys_get_logo_indices [of labels] unfolding keys_def
    by (metis set_map subset_refl)
  ultimately show ?thesis using assms(2) by (simp add: well_formed_groups_def)
qed

lemma statistics_for_every_test_group:
  assumes "well_formed_groups s target" and "get_per_group_statistics s = Inr s'"
  shows "set (test_groups s') \<subseteq> dom (per_group_statistics s')"
    and "test_groups s' = test_groups s" and "plot_filter_out s' = plot_filter_out s"
    and "mark_outlying_groups s' = mark_outlying_groups s"
proof -
  from assms(2) obtain stats where st: "s' = s\<lparr>per_group_statistics := stats\<rparr>"
    by (auto simp: get_per_group_statistics_def split: sum.splits)
  then show "test_groups s' = test_groups s" "plot_filter_out s' = plot_filter_out s"
    "mark_outlying_groups s' = mark_outlying_groups s" by simp_all
  show "set (test_groups s') \<subseteq> dom (per_group_statistics s')"
  proof
    fix g assume "g \<in> set (test_groups s')"
    then have "g \<in> set (test_groups s)" using st by simp
    from get_per_group_statistics_result [OF assms(1) this] assms(2)
    show "g \<in> dom (per_group_statistics s')" by auto
  qed
qed

section \<open>Claim on fitting on matched groups only\<close>

lemma exclude_groups_filters:
  "exclude_groups field gs ds =
     ds\<lparr>exclusive_filters := exclusive_filters ds @ map (\<lambda>grp. (field, ''='', Text grp)) gs\<rparr>"
  unfolding exclude_groups_def
  by (induction gs arbitrary: ds) (simp_all add: add_exclusive_filter_def)

lemma filter_matches_update [simp]:
  "filter_matches (ds\<lparr>exclusive_filters := fs\<rparr>) = filter_matches ds"
  "filter_matches (ds\<lparr>y_feature := y\<rparr>) = filter_matches ds"
  "filter_matches (ds\<lparr>x_features := xs\<rparr>) = filter_matches ds"
  by (intro ext; simp add: filter_matches_def split: prod.splits filter_value.splits)+

lemma matches_group_filter:
  "list_ex (filter_matches ds r) (map (\<lambda>grp. (field, ''='', Text grp)) gs)
     \<longleftrightarrow> label_of r field \<in> set gs"
  by (induction gs) (auto simp: filter_matches_def)

lemma visible_rows_exclude_groups:
  "visible_rows (exclude_groups field gs ds) =
     filter (\<lambda>r. label_of r field \<notin> set gs) (visible_rows ds)"
  by (simp add: exclude_groups_filters visible_rows_def matches_group_filter conj_commute)

lemma visible_rows_exclude_unmatched:
  assumes "set gs = set (get_data ds field) - set test_labels"
  shows "visible_rows (exclude_groups field gs ds) = matched_rows ds field test_labels"
proof -
  have "filter (\<lambda>r. label_of r field \<notin> set gs) (visible_rows ds)
      = filter (\<lambda>r. label_of r field \<in> set test_labels) (visible_rows ds)"
    by (rule filter_cong) (auto simp: assms get_data_def)
  then show ?thesis by (simp add: visible_rows_exclude_groups matched_rows_def)
qed

lemma exclude_groups_fields [simp]:
  "x_features (exclude_groups field gs ds) = x_features ds"
  "y_feature (exclude_groups field gs ds) = y_feature ds"
  "data_rows (exclude_groups field gs ds) = data_rows ds"
  by (simp_all add: exclude_groups_filters)

lemma visible_rows_features [simp]:
  "visible_rows (ds\<lparr>y_feature := y, x_features := xs\<rparr>) = visible_rows ds"
  by (simp add: visible_rows_def)

lemma get_data_features [simp]:
  "get_data (ds\<lparr>y_feature := y, x_features := xs\<rparr>) field = get_data ds field"
  by (simp add: get_data_def)

lemma get_xy_data_rows:
  "get_x_data ds = rows_x ds (visible_rows ds)" "get_y_data ds = rows_y ds (visible_rows ds)"
  by (simp_all add: get_x_data_def get_y_data_def rows_x_def rows_y_def)

lemma rows_xy_exclude_groups [simp]:
  "rows_x (exclude_groups field gs ds) = rows_x ds"
  "rows_y (exclude_groups field gs ds) = rows_y ds"
  by (intro ext; simp add: rows_x_def rows_y_def)+

text \<open>
  \<open>SingleFitGrouped.set_data\<close> with \<open>fit_only_on_matched_groups = 1\<close>: the training
  dataset handed to the parent's \<open>set_data\<close> shows exactly the rows whose group occurs in
  the testing data.
\<close>

lemma set_data_training_rows:
  assumes "fit_only_on_matched_groups s = 1"
  shows "visible_rows (training_dataset (exclude_unmatched (set_group_info s))) =
       matched_rows (training_dataset s) (grouping_feature s)
         (get_data (testing_dataset s) (grouping_feature s))"
    and "x_features (training_dataset (exclude_unmatched (set_group_info s))) =
       x_features (training_dataset s)"
    and "y_feature (training_dataset (exclude_unmatched (set_group_info s))) =
       y_feature (training_dataset s)"
    and "testing_dataset (exclude_unmatched (set_group_info s)) = testing_dataset s"
proof -
  let ?gf = "grouping_feature s"
  let ?gs = "setdiff1d (first_occurrences (get_data (training_dataset s) ?gf))
               (first_occurrences (get_data (testing_dataset s) ?gf))"
  have ds: "training_dataset (exclude_unmatched (set_group_info s)) =
      exclude_groups ?gf ?gs (training_dataset s)"
    using assms by (simp add: exclude_unmatched_def set_group_info_def exclude_groups_def Let_def)
  have "set ?gs = set (get_data (training_dataset s) ?gf)
      - set (get_data (testing_dataset s) ?gf)" by simp
  from visible_rows_exclude_unmatched [OF this]
  show "visible_rows (training_dataset (exclude_unmatched (set_group_info s))) =
       matched_rows (training_dataset s) ?gf (get_data (testing_dataset s) ?gf)"
    by (simp add: ds)
  show "x_features (training_dataset (exclude_unmatched (set_group_info s))) =
       x_features (training_dataset s)"
    "y_feature (training_dataset (exclude_unmatched (set_group_info s))) =
       y_feature (training_dataset s)"
    by (simp_all add: ds)
  show "testing_dataset (exclude_unmatched (set_group_info s)) = testing_dataset s"
    by (simp add: exclude_unmatched_def set_group_info_def Let_def)
qed

lemma run_fit_on_matched_rows:
  assumes "fit_only_on_matched_groups s = 1"
    and "y_feature (training_dataset s) = Some train_target"
    and "y_feature (testing_dataset s) = Some test_target"
  shows "take 2 (fst (run m parent_get_statistics s)) =
     [Fit (rows_x (training_dataset s)
             (matched_rows (training_dataset s) (grouping_feature s)
                (get_data (testing_dataset s) (grouping_feature s))))
          (map (\<lambda>r. number_of r train_target)
             (matched_rows (training_dataset s) (grouping_feature s)
                (get_data (testing_dataset s) (grouping_feature s)))),
      Predict (get_x_data (testing_dataset s))]"
proof -
  let ?s1 = "SingleFit_set_data (exclude_unmatched (set_group_info s))"
  note rows = set_data_training_rows [OF assms(1)]
  have test: "testing_target_data ?s1 \<noteq> None"
    using assms(3) by (simp add: SingleFit_set_data_def rows(4) get_y_data_def)
  then have sd: "set_data s = Inr ?s1" by (simp add: set_data_def Let_def)
  have x: "training_input_data ?s1 = rows_x (training_dataset s)
       (matched_rows (training_dataset s) (grouping_feature s)
          (get_data (testing_dataset s) (grouping_feature s)))"
    by (simp add: SingleFit_set_data_def get_x_data_def rows_x_def rows(1,2))
  have y: "training_target_data ?s1 = Some (map (\<lambda>r. number_of r train_target)
       (matched_rows (training_dataset s) (grouping_feature s)
          (get_data (testing_dataset s) (grouping_feature s))))"
    using assms(2) by (simp add: SingleFit_set_data_def get_y_data_def rows(1,3))
  have t: "testing_input_data ?s1 = get_x_data (testing_dataset s)"
    by (simp add: SingleFit_set_data_def rows(4))
  show ?thesis by (simp add: run_def sd x y t Let_def)
qed

text \<open>
  \<open>ExtrapolateFullFit.execute\<close> with \<open>fit_only_on_matched_groups = 1\<close> and a group field:
  every call of \<open>FullFit.do_full_fit\<close> gets as training arrays the rows of \<open>data\<close> whose
  group occurs in the test data as filtered for the plots.
\<close>

lemma restrict_to_matched_rows:
  "visible_rows (restrict_to_matched 1 (Some field) data test_data) =
     matched_rows data field (get_data test_data field)"
  "x_features (restrict_to_matched 1 (Some field) data test_data) = x_features data"
  "y_feature (restrict_to_matched 1 (Some field) data test_data) = y_feature data"
proof -
  have ds: "restrict_to_matched 1 (Some field) data test_data =
      exclude_groups field (setdiff1d (get_data data field) (get_data test_data field)) data"
    by (simp add: restrict_to_matched_def exclude_groups_def Let_def)
  have "set (setdiff1d (get_data data field) (get_data test_data field)) =
      set (get_data data field) - set (get_data test_data field)" by simp
  from visible_rows_exclude_unmatched [OF this]
  show "visible_rows (restrict_to_matched 1 (Some field) data test_data) =
     matched_rows data field (get_data test_data field)" by (simp add: ds)
  show "x_features (restrict_to_matched 1 (Some field) data test_data) = x_features data"
    "y_feature (restrict_to_matched 1 (Some field) data test_data) = y_feature data"
    by (simp_all add: ds)
qed

lemma execute_full_fit_matched_rows:
  assumes "filter_for_plot py_float plot_filter parsed_test = Inr filtered_test"
    and "numeric_field_name \<noteq> None \<or> x_features data \<noteq> []"
  shows "fst (execute_full_fit py_float data (Some parsed_test) standard_csv (Some field)
            numeric_field_name plot_filter 1) \<noteq> [] \<and>
     list_all (\<lambda>kwargs.
         full_xtrain kwargs =
           rows_x data (matched_rows data field (get_data filtered_test field)) \<and>
         full_ytrain kwargs =
           rows_y data (matched_rows data field (get_data filtered_test field)))
       (fst (execute_full_fit py_float data (Some parsed_test) standard_csv (Some field)
              numeric_field_name plot_filter 1))"
proof -
  let ?test = "filtered_test\<lparr>y_feature := y_feature data, x_features := x_features data\<rparr>"
  let ?data' = "restrict_to_matched 1 (Some field) data ?test"
  have x: "get_x_data ?data' = rows_x data (matched_rows data field (get_data filtered_test field))"
    by (simp add: get_x_data_def rows_x_def restrict_to_matched_rows)
  have y: "get_y_data ?data' = rows_y data (matched_rows data field (get_data filtered_test field))"
    by (simp add: get_y_data_def rows_y_def restrict_to_matched_rows split: option.splits)
  obtain numeric where numeric: "(case numeric_field_name of
      None \<Rightarrow> item (x_features data) 0 | Some f \<Rightarrow> Inr f) = Inr numeric"
    using assms(2) by (cases numeric_field_name) (auto simp: item_def)
  show ?thesis
    using assms(1) numeric
    by (auto simp: execute_full_fit_def full_fit_kwargs_def x y Let_def
        split: option.splits sum.splits)
qed

text \<open>
  Claim C5: when fitting on matched groups only is selected, the training set handed to
  the fit holds exactly the rows whose group is in both the training and the evaluation
  data, at each of the three places that implement it. In \<open>ExtrapolateFull.execute\<close>
  the model is fitted on the rows \<open>fit_index\<close> of the training arrays, which are the rows
  of the training groups that occur in the evaluation data, each once, and no row of
  another training group. In \<open>SingleFitGrouped\<close> the first call made on the model is
  \<open>fit\<close> on the features and targets of exactly the training rows whose group occurs in
  the testing data. In \<open>ExtrapolateFullFit.execute\<close>, which selects by groups only when
  the group field is set, every call of \<open>FullFit.do_full_fit\<close> gets exactly the training
  rows whose group occurs in the test data.
\<close>

theorem fit_only_on_matched_groups_rows:
  assumes "arg_fit_only_on_matched_groups a = 1"
    and "distinct (keys (fit_indices a))"
    and "distinct (concat (map rows (fit_indices a)))"
    and "list_all (\<lambda>i. i < length (data_Xdata a) \<and> i < length (data_ydata a))
           (concat (map rows (fit_indices a)))"
    and "fit_only_on_matched_groups s = 1"
    and "y_feature (training_dataset s) = Some train_target"
    and "y_feature (testing_dataset s) = Some test_target"
    and "filter_for_plot py_float plot_filter parsed_test = Inr filtered_test"
    and "numeric_field_name \<noteq> None \<or> x_features data \<noteq> []"
  shows "(\<exists>fit_index.
       fit_arrays a =
         Inr (map (\<lambda>i. data_Xdata a ! i) fit_index, map (\<lambda>i. data_ydata a ! i) fit_index) \<and>
       distinct fit_index \<and>
       set fit_index =
         set (concat (map rows
           (filter (\<lambda>e. fst e \<in> set (topredict_groups a)) (fit_indices a)))) \<and>
       set fit_index \<inter>
         set (concat (map rows
           (filter (\<lambda>e. fst e \<notin> set (topredict_groups a)) (fit_indices a)))) = {}) \<and>
     take 2 (fst (run m parent_get_statistics s)) =
       [Fit (rows_x (training_dataset s)
               (matched_rows (training_dataset s) (grouping_feature s)
                  (get_data (testing_dataset s) (grouping_feature s))))
            (map (\<lambda>r. number_of r train_target)
               (matched_rows (training_dataset s) (grouping_feature s)
                  (get_data (testing_dataset s) (grouping_feature s)))),
        Predict (get_x_data (testing_dataset s))] \<and>
     fst (execute_full_fit py_float data (Some parsed_test) standard_csv (Some field)
            numeric_field_name plot_filter 1) \<noteq> [] \<and>
     list_all (\<lambda>kwargs.
         full_xtrain kwargs =
           rows_x data (matched_rows data field (get_data filtered_test field)) \<and>
         full_ytrain kwargs =
           rows_y data (matched_rows data field (get_data filtered_test field)))
       (fst (execute_full_fit py_float data (Some parsed_test) standard_csv (Some field)
              numeric_field_name plot_filter 1))"
  using fit_arrays_matched_rows [OF assms(1-4)]
    run_fit_on_matched_rows [OF assms(5-7), of m parent_get_statistics]
    execute_full_fit_matched_rows [OF assms(8,9), of standard_csv field]
  by blast

lemmas dataset_simps =
  matched_rows_def rows_x_def rows_y_def visible_rows_def get_data_def get_x_data_def
  get_y_data_def filter_matches_def training_example_def testing_example_def dataset0_def
  mk_row_def grouped_example_def sfg0_def

lemma plot_filter_example:
  "filter_for_plot (\<lambda>t. None) ''group, =, Z'' testing_example =
     Inr (testing_example\<lparr>exclusive_filters := [(''group'', ''='', Text ''Z'')]\<rparr>)"
  by (simp add: filter_for_plot_def item_def strip_def is_space_def add_exclusive_filter_def
      testing_example_def dataset0_def)

text \<open>
  With training rows of groups X, Y, Y and evaluation rows of groups Y, Z, Y, each of
  the three places fits on the two training rows of group Y.
\<close>

theorem fit_only_on_matched_groups_rows_witness:
  "arg_fit_only_on_matched_groups xy_yz_example = 1 \<and>
   distinct (keys (fit_indices xy_yz_example)) \<and>
   distinct (concat (map rows (fit_indices xy_yz_example))) \<and>
   fit_only_on_matched_groups grouped_example = 1 \<and>
   y_feature (training_dataset grouped_example) = Some ''y'' \<and>
   y_feature (testing_dataset grouped_example) = Some ''y'' \<and>
   filter_for_plot (\<lambda>t. None) '''' testing_example = Inr testing_example \<and>
   fit_arrays xy_yz_example = Inr ([[2], [3]], [20, 30]) \<and>
   take 2 (fst (run mean_model Inr grouped_example)) =
     [Fit [[2], [3]] [20, 30], Predict [[4], [5], [6]]] \<and>
   map full_xtrain (fst (execute_full_fit (\<lambda>t. None) training_example (Some testing_example)
     None (Some ''group'') None '''' 1)) = [[[2], [3]]] \<and>
   map full_ytrain (fst (execute_full_fit (\<lambda>t. None) training_example (Some testing_example)
     None (Some ''group'') None '''' 1)) = [Some [20, 30]]"
proof -
  have h1: "arg_fit_only_on_matched_groups xy_yz_example = 1"
    by (simp add: xy_yz_example_def)
  have h2: "distinct (keys (fit_indices xy_yz_example))"
    by (simp add: xy_yz_example_def keys_def)
  have h3: "distinct (concat (map rows (fit_indices xy_yz_example)))"
    by (simp add: xy_yz_example_def rows_def)
  have h4: "list_all (\<lambda>i. i < length (data_Xdata xy_yz_example) \<and> i < length (data_ydata xy_yz_example))
     (concat (map rows (fit_indices xy_yz_example)))"
    by (simp add: xy_yz_example_def rows_def)
  have h5: "fit_only_on_matched_groups grouped_example = 1"
    by (simp add: grouped_example_def sfg0_def)
  have h6: "y_feature (training_dataset grouped_example) = Some ''y''"
    by (simp add: grouped_example_def sfg0_def training_example_def dataset0_def)
  have h7: "y_feature (testing_dataset grouped_example) = Some ''y''"
    by (simp add: grouped_example_def sfg0_def testing_example_def dataset0_def)
  have h8: "filter_for_plot (\<lambda>t. None) '''' testing_example = Inr testing_example"
    by (simp add: filter_for_plot_def)
  have h9: "None \<noteq> None \<or> x_features training_example \<noteq> []"
    by (simp add: training_example_def dataset0_def)
  have a: "fit_arrays xy_yz_example = Inr ([[2], [3]], [20, 30])"
    by (simp add: ef_simps xy_yz_example_def)
  have rows_b: "matched_rows (training_dataset grouped_example) (grouping_feature grouped_example)
      (get_data (testing_dataset grouped_example) (grouping_feature grouped_example))
      = [mk_row ''Y'' 2 20, mk_row ''Y'' 3 30]"
    by (simp add: dataset_simps)
  have rows_c: "matched_rows training_example ''group'' (get_data testing_example ''group'')
      = [mk_row ''Y'' 2 20, mk_row ''Y'' 3 30]"
    by (simp add: dataset_simps)
  have calls: "length (fst (execute_full_fit (\<lambda>t. None) training_example (Some testing_example)
     None (Some ''group'') None '''' 1)) = 1"
    by (simp add: execute_full_fit_def h8 item_def training_example_def dataset0_def Let_def)
  note inst = fit_only_on_matched_groups_rows [OF h1 h2 h3 h4 h5 h6 h7 h8 h9,
      of mean_model Inr None "''group''"]
  have b: "take 2 (fst (run mean_model Inr grouped_example)) =
     [Fit [[2], [3]] [20, 30], Predict [[4], [5], [6]]]"
    using inst unfolding rows_b
    by (simp add: rows_x_def mk_row_def get_x_data_def visible_rows_def grouped_example_def
        sfg0_def training_example_def testing_example_def dataset0_def)
  obtain k where k: "fst (execute_full_fit (\<lambda>t. None) training_example (Some testing_example)
     None (Some ''group'') None '''' 1) = [k]"
    using calls by (auto simp: length_Suc_conv)
  have c: "full_xtrain k = [[2], [3]]" "full_ytrain k = Some [20, 30]"
    using inst unfolding rows_c k
    by (simp_all add: rows_x_def rows_y_def mk_row_def training_example_def dataset0_def)
  show ?thesis using h1 h2 h3 h5 h6 h7 h8 a b c unfolding k by simp
qed

section \<open>Claims on the statistics and on SingleFitGrouped\<close>

lemmas sfg_simps =
  get_per_group_statistics_def lookup_def group_rmse_def take_rows_def
  mean_squared_error_def set_statistic_def intersect1d_def sfg0_def Let_def

lemma rms_statistics_values:
  fixes ydata Yp :: vector
  assumes "length Yp = length ydata" and "ydata \<noteq> []"
    and "supported \<noteq> []" and "unsupported \<noteq> []"
    and "list_all (\<lambda>i. i < length ydata) supported"
    and "list_all (\<lambda>i. i < length ydata) unsupported"
  shows "snd (rms_statistics ydata Yp supported unsupported) =
     Inr (rmse_rows ydata Yp [0..<length ydata], rmse_rows ydata Yp supported,
          rmse_rows ydata Yp unsupported)"
proof -
  have overall: "mean_squared_error ydata Yp =
      Inr ((\<Sum>i\<leftarrow>[0..<length ydata]. (Yp ! i - ydata ! i)\<^sup>2) / real (length ydata))"
    using assms(1,2) by (simp add: mean_squared_error_def squares_overall)
  show ?thesis
    using assms
    by (simp add: rms_statistics_def overall rms_on_rows rmse_rows_def Let_def)
qed

lemma rms_on_value:
  fixes y p :: vector
  assumes "rms_on y p index = (calls, Inr v)"
  shows "v = rmse_rows y p index"
proof -
  from assms obtain mse where
    mse: "mean_squared_error (map (\<lambda>i. y ! i) index) (map (\<lambda>i. p ! i) index) = Inr mse"
      "v = sqrt mse"
    by (auto simp: rms_on_def take_rows_def split: if_splits sum.splits)
  from mse(1) have "mse = (\<Sum>i\<leftarrow>index. (p ! i - y ! i)\<^sup>2) / real (length index)"
    by (auto simp: mean_squared_error_def squares_on_rows split: if_splits)
  then show ?thesis using mse(2) by (simp add: rmse_rows_def)
qed

lemma overall_value:
  fixes y p :: vector
  assumes "mean_squared_error y p = Inr mse"
  shows "sqrt mse = rmse_rows y p [0..<length y]"
proof -
  from assms have "length p = length y"
    by (auto simp: mean_squared_error_def split: if_splits)
  with assms show ?thesis
    by (auto simp: mean_squared_error_def rmse_rows_def squares_overall split: if_splits)
qed

lemma rms_statistics_result:
  fixes y p :: vector
  assumes "snd (rms_statistics y p supported unsupported) = Inr (overall, sup_rms, unsup_rms)"
  shows "overall = rmse_rows y p [0..<length y]" and "sup_rms = rmse_rows y p supported"
    and "unsup_rms = rmse_rows y p unsupported"
proof -
  from assms obtain mse c1 c2 where
    parts: "mean_squared_error y p = Inr mse" "overall = sqrt mse"
      "rms_on y p supported = (c1, Inr sup_rms)" "rms_on y p unsupported = (c2, Inr unsup_rms)"
    by (auto simp: rms_statistics_def Let_def split: sum.splits prod.splits)
  show "overall = rmse_rows y p [0..<length y]" using overall_value parts(1,2) by simp
  show "sup_rms = rmse_rows y p supported" by (rule rms_on_value [OF parts(3)])
  show "unsup_rms = rmse_rows y p unsupported" by (rule rms_on_value [OF parts(4)])
qed

lemma execute_result:
  assumes "snd (execute m a) = Inr r"
    and "supported_unsupported a = Inr (supported, unsupported)"
  shows "Ypredict r = predict m (fitted r) (topredict_Xdata a)"
    and "snd (rms_statistics (topredict_ydata a) (Ypredict r) supported unsupported) =
       Inr (overall_rms r, supported_rms r, unsupported_rms r)"
  using assms
  by (auto simp: execute_def plot_arguments_def Let_def split: prod.splits sum.splits)

text \<open>
  Claim C7, with floating-point numbers read as reals: in every run of \<open>execute\<close> that
  returns, the predictions are those of the fitted model for the whole evaluation
  matrix, and the three statistics are \<open>sqrt (mean ((y_hat - y)\<^sup>2))\<close> of these
  predictions against the evaluation targets: the overall one over every evaluation
  row, whatever its support status, the other two over the supported and over the
  unsupported rows. Likewise every statistic recorded for a test group by
  \<open>get_per_group_statistics\<close> is that root mean square over the rows of the group, and
  the filtered one over the rows of the group that are shown.
\<close>

theorem rmse_is_root_mean_square:
  assumes "snd (execute m a) = Inr r"
    and "supported_unsupported a = Inr (supported, unsupported)"
    and "well_formed_groups s target" and "g \<in> set (test_groups s)"
  shows "Ypredict r = predict m (fitted r) (topredict_Xdata a) \<and>
     overall_rms r =
       rmse_rows (topredict_ydata a) (Ypredict r) [0..<length (topredict_ydata a)] \<and>
     supported_rms r = rmse_rows (topredict_ydata a) (Ypredict r) supported \<and>
     unsupported_rms r = rmse_rows (topredict_ydata a) (Ypredict r) unsupported \<and>
     (\<exists>s' d. get_per_group_statistics s = Inr s' \<and> per_group_statistics s' g = Some d \<and>
        d ''rmse'' = Some (rmse_rows target (testing_target_prediction s) (group_rows s g)) \<and>
        (d ''rmse_plot_filter_out'' = None \<or>
         d ''rmse_plot_filter_out'' =
           Some (rmse_rows target (testing_target_prediction s)
                   (intersect1d (group_rows s g) (plotting_index s)))))"
proof -
  note run = execute_result [OF assms(1,2)]
  note rms = rms_statistics_result [OF run(2)]
  from get_per_group_statistics_result [OF assms(3,4)] obtain s' where
    s': "get_per_group_statistics s = Inr s'"
      "per_group_statistics s' g = Some (expected_group_statistics s target g)" by blast
  have "expected_group_statistics s target g ''rmse'' =
      Some (rmse_rows target (testing_target_prediction s) (group_rows s g))"
    by (simp add: expected_group_statistics_def Let_def)
  moreover have "expected_group_statistics s target g ''rmse_plot_filter_out'' = None \<or>
      expected_group_statistics s target g ''rmse_plot_filter_out'' =
        Some (rmse_rows target (testing_target_prediction s)
                (intersect1d (group_rows s g) (plotting_index s)))"
    by (simp add: expected_group_statistics_def Let_def)
  ultimately show ?thesis using run(1) rms s' by blast
qed

text \<open>
  The scenario of the specification: targets 1, 2, 3, 4, predictions 1, 2, 3, 6,
  supported rows 0, 1, 2 and unsupported row 3. The run returns the statistics 1, 0
  and 2. In the grouped fit on the same data, group B on rows 2 and 3 has the RMSE
  \<open>sqrt 2\<close>.
\<close>

theorem rmse_is_root_mean_square_witness:
  "snd (execute first_feature_model scenario_example) =
     Inr \<lparr>fitted = (), Ypredict = [1, 2, 3, 6], std_Ypredict = None,
          overall_rms = 1, supported_rms = 0, unsupported_rms = 2,
          plot_supported = ([1, 2, 3], [1, 2, 3]), plot_unsupported = ([4], [6]),
          xerr_supported = [0, 0, 0], xerr_unsupported = [0]\<rparr> \<and>
   supported_unsupported scenario_example = Inr ([0, 1, 2], [3]) \<and>
   rmse_rows (topredict_ydata scenario_example) [1, 2, 3, 6]
     [0..<length (topredict_ydata scenario_example)] = 1 \<and>
   rmse_rows (topredict_ydata scenario_example) [1, 2, 3, 6] [0, 1, 2] = 0 \<and>
   rmse_rows (topredict_ydata scenario_example) [1, 2, 3, 6] [3] = 2 \<and>
   well_formed_groups per_group_example [1, 2, 3, 4] \<and>
   ''B'' \<in> set (test_groups per_group_example) \<and>
   rmse_rows [1, 2, 3, 4] (testing_target_prediction per_group_example)
     (group_rows per_group_example ''B'') = sqrt 2"
proof -
  have run: "snd (execute first_feature_model scenario_example) =
     Inr \<lparr>fitted = (), Ypredict = [1, 2, 3, 6], std_Ypredict = None,
          overall_rms = 1, supported_rms = 0, unsupported_rms = 2,
          plot_supported = ([1, 2, 3], [1, 2, 3]), plot_unsupported = ([4], [6]),
          xerr_supported = [0, 0, 0], xerr_unsupported = [0]\<rparr>"
    by (simp add: ef_simps scenario_example_def first_feature_model_def eval_nat_numeral)
  have su: "supported_unsupported scenario_example = Inr ([0, 1, 2], [3])"
    by (simp add: ef_simps scenario_example_def)
  have w: "well_formed_groups per_group_example [1, 2, 3, 4]"
    by (simp add: well_formed_groups_def per_group_example_def sfg0_def group_rows_def)
  have g: "''B'' \<in> set (test_groups per_group_example)"
    by (simp add: per_group_example_def sfg0_def)
  have r4: "rmse_rows [1, 2, 3, 4] (testing_target_prediction per_group_example)
     (group_rows per_group_example ''B'') = sqrt 2"
    by (simp add: rmse_rows_def per_group_example_def sfg0_def group_rows_def eval_nat_numeral)
  let ?r = "\<lparr>fitted = (), Ypredict = [1, 2, 3, 6], std_Ypredict = None,
          overall_rms = 1, supported_rms = 0, unsupported_rms = 2,
          plot_supported = ([1, 2, 3], [1, 2, 3]), plot_unsupported = ([4], [6 :: real]),
          xerr_supported = [0, 0, 0], xerr_unsupported = [0 :: real]\<rparr>"
  from rmse_is_root_mean_square [OF run su w g]
  have "overall_rms ?r = rmse_rows (topredict_ydata scenario_example) (Ypredict ?r)
       [0..<length (topredict_ydata scenario_example)] \<and>
     supported_rms ?r = rmse_rows (topredict_ydata scenario_example) (Ypredict ?r) [0, 1, 2] \<and>
     unsupported_rms ?r = rmse_rows (topredict_ydata scenario_example) (Ypredict ?r) [3]"
    by blast
  then have "rmse_rows (topredict_ydata scenario_example) [1, 2, 3, 6]
       [0..<length (topredict_ydata scenario_example)] = 1 \<and>
     rmse_rows (topredict_ydata scenario_example) [1, 2, 3, 6] [0, 1, 2] = 0 \<and>
     rmse_rows (topredict_ydata scenario_example) [1, 2, 3, 6] [3] = 2"
    by simp
  then show ?thesis using run su w g r4 by blast
qed

text \<open>
  Claim C8: for every test group, the record written by \<open>get_per_group_statistics\<close>
  holds the key \<open>rmse_plot_filter_out\<close> if and only if a plot filter was supplied and
  some row of the group is among the rows to be shown. Otherwise the key is absent: the
  record has no key besides \<open>rmse\<close>.
\<close>

theorem filtered_rmse_present_iff:
  assumes "well_formed_groups s target" and "g \<in> set (test_groups s)"
  shows "\<exists>s' d. get_per_group_statistics s = Inr s' \<and> per_group_statistics s' g = Some d \<and>
     (''rmse_plot_filter_out'' \<in> dom d \<longleftrightarrow>
        plot_filter_out s \<noteq> None \<and> set (group_rows s g) \<inter> set (plotting_index s) \<noteq> {}) \<and>
     ''rmse'' \<in> dom d \<and> dom d \<subseteq> {''rmse'', ''rmse_plot_filter_out''}"
proof -
  from get_per_group_statistics_result [OF assms] obtain s' where
    s': "get_per_group_statistics s = Inr s'"
      "per_group_statistics s' g = Some (expected_group_statistics s target g)" by blast
  have shown: "intersect1d (group_rows s g) (plotting_index s) \<noteq> [] \<longleftrightarrow>
      set (group_rows s g) \<inter> set (plotting_index s) \<noteq> {}"
    using set_intersect1d [of "group_rows s g" "plotting_index s"] by (metis set_empty)
  have "''rmse_plot_filter_out'' \<in> dom (expected_group_statistics s target g) \<longleftrightarrow>
      plot_filter_out s \<noteq> None \<and> set (group_rows s g) \<inter> set (plotting_index s) \<noteq> {}"
    unfolding shown [symmetric] by (simp add: expected_group_statistics_def Let_def)
  moreover have "''rmse'' \<in> dom (expected_group_statistics s target g)"
    by (simp add: expected_group_statistics_def Let_def)
  moreover have "dom (expected_group_statistics s target g) \<subseteq> {''rmse'', ''rmse_plot_filter_out''}"
    by (auto simp: expected_group_statistics_def Let_def split: if_splits)
  ultimately show ?thesis using s' by blast
qed

text \<open>
  With rows 0 and 1 shown, group A (rows 0 and 1) gets both statistics and group B
  (rows 2 and 3) gets \<open>rmse\<close> alone.
\<close>

theorem filtered_rmse_present_iff_witness:
  "well_formed_groups per_group_example [1, 2, 3, 4] \<and>
   ''B'' \<in> set (test_groups per_group_example) \<and>
   get_per_group_statistics per_group_example =
     Inr (per_group_example\<lparr>per_group_statistics :=
            [''A'' \<mapsto> [''rmse'' \<mapsto> 0, ''rmse_plot_filter_out'' \<mapsto> 0],
             ''B'' \<mapsto> [''rmse'' \<mapsto> sqrt 2]]\<rparr>) \<and>
   ''rmse_plot_filter_out'' \<notin> dom [''rmse'' \<mapsto> sqrt 2] \<and>
   set (group_rows per_group_example ''B'') \<inter> set (plotting_index per_group_example) = {}"
proof -
  have w: "well_formed_groups per_group_example [1, 2, 3, 4]"
    by (simp add: well_formed_groups_def per_group_example_def sfg0_def group_rows_def)
  have g: "''B'' \<in> set (test_groups per_group_example)"
    by (simp add: per_group_example_def sfg0_def)
  have run: "get_per_group_statistics per_group_example =
     Inr (per_group_example\<lparr>per_group_statistics :=
            [''A'' \<mapsto> [''rmse'' \<mapsto> 0, ''rmse_plot_filter_out'' \<mapsto> 0],
             ''B'' \<mapsto> [''rmse'' \<mapsto> sqrt 2]]\<rparr>)"
    by (simp add: sfg_simps per_group_example_def eval_nat_numeral)
  have e: "set (group_rows per_group_example ''B'') \<inter> set (plotting_index per_group_example) = {}"
    by (simp add: per_group_example_def sfg0_def group_rows_def)
  from filtered_rmse_present_iff [OF w g] run e
  have "''rmse_plot_filter_out'' \<notin> dom [''rmse'' \<mapsto> sqrt 2]" by auto
  then show ?thesis using w g run e by blast
qed

lemma testing_dataset_set_up [simp]:
  "testing_dataset (exclude_unmatched (set_group_info s)) = testing_dataset s"
  by (simp add: exclude_unmatched_def set_group_info_def Let_def)

lemma set_data_outcome:
  "set_data s =
     (if y_feature (testing_dataset s) = None then Inl ValueError
      else Inr (SingleFit_set_data (exclude_unmatched (set_group_info s))))"
  by (simp add: set_data_def SingleFit_set_data_def get_y_data_def Let_def split: option.splits)

text \<open>
  Claim C9: constructing a grouped fit with \<open>grouping_feature\<close> unset raises
  \<open>ValueError\<close>, and so does \<open>set_data\<close> when the testing data have no target, so that
  it returns only objects that have testing target data. In both cases the workflow
  ends with that error before any call reaches the model: no fit has occurred.
\<close>

theorem missing_configuration_raises:
  "init training testing plot_filter None mark fit_only = Inl ValueError \<and>
   workflow m parent_get_statistics training testing plot_filter None mark fit_only
     = ([], Inl ValueError) \<and>
   (y_feature (testing_dataset s) = None \<longrightarrow>
      set_data s = Inl ValueError \<and> run m parent_get_statistics s = ([], Inl ValueError)) \<and>
   (init training testing plot_filter (Some feature) mark fit_only = Inr s0 \<longrightarrow>
      y_feature testing = None \<longrightarrow>
      workflow m parent_get_statistics training testing plot_filter (Some feature) mark fit_only
        = ([], Inl ValueError)) \<and>
   (set_data s = Inr s1 \<longrightarrow> testing_target_data s1 \<noteq> None)"
proof -
  have 1: "init training testing plot_filter None mark fit_only = Inl ValueError"
    by (simp add: init_def)
  have 3: "set_data s = Inl ValueError \<and> run m parent_get_statistics s = ([], Inl ValueError)"
    if "y_feature (testing_dataset s) = None" for s
    using that by (simp add: set_data_outcome run_def)
  have 4: "workflow m parent_get_statistics training testing plot_filter (Some feature) mark fit_only
        = ([], Inl ValueError)"
    if "init training testing plot_filter (Some feature) mark fit_only = Inr s0"
      and "y_feature testing = None"
  proof -
    from that(1) have "testing_dataset s0 = testing"
      by (auto simp: init_def SingleFit_init_def)
    then show ?thesis using that 3 [of s0] by (simp add: workflow_def)
  qed
  have 5: "testing_target_data s1 \<noteq> None" if "set_data s = Inr s1"
    using that by (auto simp: set_data_def Let_def split: if_splits)
  show ?thesis using 1 3 4 5 by (simp add: workflow_def)
qed

theorem missing_configuration_raises_witness:
  "init training_example testing_example None None 2 0 = Inl ValueError \<and>
   workflow mean_model Inr training_example testing_example None None 2 0
     = ([], Inl ValueError) \<and>
   y_feature (testing_example\<lparr>y_feature := None\<rparr>) = None \<and>
   workflow mean_model Inr training_example (testing_example\<lparr>y_feature := None\<rparr>) None
     (Some ''group'') 2 0 = ([], Inl ValueError)"
proof -
  have h: "y_feature (testing_example\<lparr>y_feature := None\<rparr>) = None" by simp
  have i: "init training_example (testing_example\<lparr>y_feature := None\<rparr>) None (Some ''group'') 2 0
      = Inr ((SingleFit_init training_example (testing_example\<lparr>y_feature := None\<rparr>) None)
              \<lparr>grouping_feature := ''group'', mark_outlying_groups := 2\<rparr>)"
    by (simp add: init_def SingleFit_init_def)
  from missing_configuration_raises [of training_example testing_example None 2 0 mean_model Inr]
  have a: "init training_example testing_example None None 2 0 = Inl ValueError"
    "workflow mean_model Inr training_example testing_example None None 2 0 = ([], Inl ValueError)"
    by simp_all
  from missing_configuration_raises [of training_example "testing_example\<lparr>y_feature := None\<rparr>"
      None 2 0 mean_model Inr _ "''group''"] i h
  have "workflow mean_model Inr training_example (testing_example\<lparr>y_feature := None\<rparr>) None
     (Some ''group'') 2 0 = ([], Inl ValueError)"
    by simp
  then show ?thesis using a h by simp
qed

end
